theory Spec2Isabelle
  imports Complex_Main
begin

section \<open>Values of the host language\<close>

text \<open>
  A JavaScript \<^verbatim>\<open>number\<close> as far as the library looks at it: a finite value (every finite
  double is a rational), \<^verbatim>\<open>NaN\<close>, or one of the two infinities.
\<close>

datatype number = Finite rat | NaN | PosInfinity | NegInfinity

text \<open>\<^verbatim>\<open>x < 0\<close> on numbers: false for \<^verbatim>\<open>NaN\<close>.\<close>

fun lt_zero :: "number \<Rightarrow> bool" where
  "lt_zero (Finite r) = (r < 0)"
| "lt_zero NaN = False"
| "lt_zero PosInfinity = False"
| "lt_zero NegInfinity = True"

text \<open>\<^verbatim>\<open>Math.floor\<close>: the infinities and \<^verbatim>\<open>NaN\<close> are returned as they are.\<close>

fun Math_floor :: "number \<Rightarrow> number" where
  "Math_floor (Finite r) = Finite (of_int \<lfloor>r\<rfloor>)"
| "Math_floor NaN = NaN"
| "Math_floor PosInfinity = PosInfinity"
| "Math_floor NegInfinity = NegInfinity"

text \<open>
  The values a caller-supplied hook can produce: what it returns (\<^verbatim>\<open>undefined\<close>, a boolean,
  anything else), or the value it throws.
\<close>

datatype js_value = JSUndefined | JSBool bool | JSOther

text \<open>
  Thrown values. \<open>DOMException name message\<close> is what an aborted request rejects with;
  \<open>Error name message\<close> stands for \<^verbatim>\<open>Error\<close> and the built-in subclasses (\<^verbatim>\<open>TypeError\<close>,
  \<^verbatim>\<open>SyntaxError\<close>); \<open>NetworkError\<close> and \<open>TimeoutError\<close> are the two classes of
  \<^verbatim>\<open>errors.js\<close>; \<open>NonError\<close> is any other value that has no string \<^verbatim>\<open>name\<close> and \<^verbatim>\<open>message\<close>;
  \<open>Nullish\<close> is \<^verbatim>\<open>null\<close> or \<^verbatim>\<open>undefined\<close>, of which no property can be read.
\<close>

datatype exn =
    DOMException string string
  | Error string string
  | NetworkError string
  | TimeoutError string
  | NonError
  | Nullish

fun instanceof_DOMException :: "exn \<Rightarrow> bool" where
  "instanceof_DOMException (DOMException n m) = True"
| "instanceof_DOMException e = False"

text \<open>
  \<^verbatim>\<open>typeof e.name === "string" && typeof e.message === "string"\<close>. On a value that is
  \<^verbatim>\<open>null\<close> or \<^verbatim>\<open>undefined\<close> the expression does not yield false: reading \<^verbatim>\<open>e.name\<close> throws a
  \<^verbatim>\<open>TypeError\<close>, here \<open>property_TypeError\<close>. The functions below test \<open>is_nullish\<close> first.
\<close>

fun is_nullish :: "exn \<Rightarrow> bool" where
  "is_nullish Nullish = True"
| "is_nullish e = False"

definition property_TypeError :: exn where
  "property_TypeError = Error ''TypeError'' ''Cannot read properties of null (reading name)''"

fun has_name_and_message :: "exn \<Rightarrow> bool" where
  "has_name_and_message NonError = False"
| "has_name_and_message Nullish = False"
| "has_name_and_message e = True"

fun message :: "exn \<Rightarrow> string" where
  "message (DOMException n m) = m"
| "message (Error n m) = m"
| "message (NetworkError m) = m"
| "message (TimeoutError m) = m"
| "message NonError = []"
| "message Nullish = []"

text \<open>
  \<^verbatim>\<open>errors.js\<close>: \<^verbatim>\<open>new NetworkError(error)\<close> takes an error's message, or the string it is given;
  \<^verbatim>\<open>TimeoutError extends NetworkError\<close>.
\<close>

definition new_NetworkError :: "exn \<Rightarrow> exn" where
  "new_NetworkError error = NetworkError (message error)"

fun instanceof_NetworkError :: "exn \<Rightarrow> bool" where
  "instanceof_NetworkError (NetworkError m) = True"
| "instanceof_NetworkError (TimeoutError m) = True"
| "instanceof_NetworkError e = False"

fun instanceof_TimeoutError :: "exn \<Rightarrow> bool" where
  "instanceof_TimeoutError (TimeoutError m) = True"
| "instanceof_TimeoutError e = False"

section \<open>Card records\<close>

datatype Sex = M | F

text \<open>
  A \<^verbatim>\<open>Date\<close> is its time value: a whole number of milliseconds since the epoch, or \<^verbatim>\<open>NaN\<close>
  for an invalid date. \<^verbatim>\<open>new Date(n)\<close> on a number clips it: a value that is not finite or
  whose magnitude is above 8.64e15 gives the invalid date, any other value is truncated
  towards zero.
\<close>

datatype Date = Date int | Invalid_Date

definition trunc :: "rat \<Rightarrow> int" where
  "trunc r = (if 0 \<le> r then \<lfloor>r\<rfloor> else \<lceil>r\<rceil>)"

fun new_Date :: "number \<Rightarrow> Date" where
  "new_Date (Finite r) = (if \<bar>r\<bar> \<le> 8640000000000000 then Date (trunc r) else Invalid_Date)"
| "new_Date NaN = Invalid_Date"
| "new_Date PosInfinity = Invalid_Date"
| "new_Date NegInfinity = Invalid_Date"

record ServiceNHICard =
  reader_name :: string
  card_no :: string
  full_name :: string
  id_no :: string
  birth_date :: string
  birth_date_timestamp :: number
  sex :: Sex
  issue_date :: string
  issue_date_timestamp :: number

record NHICard =
  readerName :: string
  cardNo :: string
  fullName :: string
  idNo :: string
  birthday :: Date
  sex' :: Sex
  issueDate :: Date

definition mapCardList :: "ServiceNHICard list \<Rightarrow> NHICard list" where
  "mapCardList cards =
     map (\<lambda>e.
       \<lparr> readerName = reader_name e,
         cardNo = card_no e,
         fullName = full_name e,
         idNo = id_no e,
         birthday = new_Date (birth_date_timestamp e),
         sex' = sex e,
         issueDate = new_Date (issue_date_timestamp e) \<rparr>) cards"

definition example_cards :: "ServiceNHICard list" where
  "example_cards =
     [\<lparr> reader_name = ''R1'', card_no = ''000011112222'', full_name = ''A'', id_no = ''A123456789'',
        birth_date = ''1990-01-02'', birth_date_timestamp = Finite 631238400000, sex = F,
        issue_date = ''2010-03-04'', issue_date_timestamp = Finite 1267660800000 \<rparr>,
      \<lparr> reader_name = ''R2'', card_no = ''000033334444'', full_name = ''B'', id_no = ''B223456789'',
        birth_date = ''1969-12-31'', birth_date_timestamp = Finite (- 86400000), sex = M,
        issue_date = ''2004-01-01'', issue_date_timestamp = Finite 1072915200000 \<rparr>]"

section \<open>The timed request\<close>

text \<open>
  Template literals and \<^verbatim>\<open>JSON.stringify\<close> on a string. A string is its UTF-8 bytes;
  \<^verbatim>\<open>JSON.stringify\<close> escapes the quote, the backslash and the control characters below
  \<^verbatim>\<open>0x20\<close>, and leaves every other byte as it is.
\<close>

fun decimal :: "nat \<Rightarrow> string" where
  "decimal n =
     (if n < 10 then [''0123456789'' ! n]
      else decimal (n div 10) @ [''0123456789'' ! (n mod 10)])"

declare decimal.simps [simp del]

definition hex2 :: "nat \<Rightarrow> string" where
  "hex2 n = [''0123456789abcdef'' ! (n div 16), ''0123456789abcdef'' ! (n mod 16)]"

definition QuoteJSONChar :: "char \<Rightarrow> string" where
  "QuoteJSONChar c =
     (if c = CHR 0x22 then [CHR 0x5C, CHR 0x22]
      else if c = CHR 0x5C then [CHR 0x5C, CHR 0x5C]
      else if c = CHR 0x08 then [CHR 0x5C, CHR ''b'']
      else if c = CHR 0x09 then [CHR 0x5C, CHR ''t'']
      else if c = CHR 0x0A then [CHR 0x5C, CHR ''n'']
      else if c = CHR 0x0C then [CHR 0x5C, CHR ''f'']
      else if c = CHR 0x0D then [CHR 0x5C, CHR ''r'']
      else if (of_char c :: nat) < 32
        then [CHR 0x5C, CHR ''u'', CHR ''0'', CHR ''0''] @ hex2 (of_char c)
      else [c])"

definition JSON_stringify :: "string \<Rightarrow> string" where
  "JSON_stringify s = [CHR 0x22] @ concat (map QuoteJSONChar s) @ [CHR 0x22]"

text \<open>
  What \<^verbatim>\<open>fetch\<close> hands back. A \<open>Response\<close> carries its status and what reading the body
  gives: \<^verbatim>\<open>response.json()\<close> resolves to a value of the caller's shape \<open>'a\<close> or rejects,
  \<^verbatim>\<open>response.text()\<close> resolves to the raw text or rejects.
\<close>

record 'a Response =
  status :: nat
  json :: "exn + 'a"
  text' :: "exn + string"

datatype 'a settled = Rejected exn | Fulfilled "'a Response"

text \<open>\<^verbatim>\<open>AbortSignal.timeout(ms)\<close>; the timeout is a whole number of milliseconds.\<close>

datatype AbortSignal = AbortSignal_timeout nat

record RequestInit =
  signal :: "AbortSignal option"
  timeout :: "int option"

type_synonym 'a fetch = "string \<Rightarrow> AbortSignal option \<Rightarrow> 'a settled"

text \<open>
  \<^verbatim>\<open>fetchWithTimeout\<close>. The transport \<open>fetch\<close> is a parameter. In the branch for a status
  other than 200, \<^verbatim>\<open>skipCatch\<close> is set before \<^verbatim>\<open>response.text()\<close> is awaited, so a rejection of
  \<^verbatim>\<open>text()\<close> leaves the \<^verbatim>\<open>catch\<close> block as it came.
\<close>

text \<open>The error thrown for a status other than 200:
  \<^verbatim>\<open>new Error(`status code = ${response.status}, body = ${JSON.stringify(await response.text())}`)\<close>.\<close>

definition status_error :: "nat \<Rightarrow> string \<Rightarrow> exn" where
  "status_error code body =
     Error ''Error'' (''status code = '' @ decimal code @ '', body = '' @ JSON_stringify body)"

definition fetchWithTimeout :: "'a fetch \<Rightarrow> string \<Rightarrow> RequestInit \<Rightarrow> exn + 'a" where
  "fetchWithTimeout fetch url config =
     (let config' =
        (case (signal config, timeout config) of
           (None, Some ms) \<Rightarrow>
             if ms \<ge> 0 then config\<lparr>signal := Some (AbortSignal_timeout (nat ms))\<rparr> else config
         | _ \<Rightarrow> config)
      in case fetch url (signal config') of
        Rejected error \<Rightarrow>
          if instanceof_DOMException error then Inl (TimeoutError ''request timeout'')
          else if is_nullish error then Inl property_TypeError
          else if has_name_and_message error then Inl (new_NetworkError error)
          else Inl error
      | Fulfilled response \<Rightarrow>
          if status response = 200 then
            (case json response of
               Inr v \<Rightarrow> Inr v
             | Inl error \<Rightarrow>
                 if instanceof_DOMException error then Inl (TimeoutError ''body timeout'')
                 else Inl (Error ''Error''
                   (''status code = '' @ decimal (status response) @ '', but cannot get the body'')))
          else
            (case text' response of
               Inr body \<Rightarrow> Inl (status_error (status response) body)
             | Inl error \<Rightarrow> Inl error))"

section \<open>The service object\<close>

text \<open>
  A caller-supplied hook (\<^verbatim>\<open>onWebSocketRetry\<close>, \<^verbatim>\<open>onWebSocketUpdate\<close>) is what a call of it
  does: it returns a value, throws, or returns a promise that is later fulfilled or
  rejected.
\<close>

datatype hook = Returns js_value | Throws exn | Fulfils js_value | RejectsWith exn

record TWNHIICCService =
  urlPrefix :: string
  apiGetCardList :: string
  apiGetVersion :: string
  apiWebsocket :: string
  webSocket :: "nat option"
  webSocketInterval :: "number option"
  onWebSocketRetry :: "hook option"
  onWebSocketUpdate :: "hook option"

definition getVersion ::
  "'a fetch \<Rightarrow> 'z TWNHIICCService_scheme \<Rightarrow> int option \<Rightarrow> exn + 'a" where
  "getVersion fetch this timeout_arg =
     (let timeout = (case timeout_arg of None \<Rightarrow> 5000 | Some ms \<Rightarrow> ms)
      in fetchWithTimeout fetch (apiGetVersion this) \<lparr>signal = None, timeout = Some timeout\<rparr>)"

definition getCardList ::
  "ServiceNHICard list fetch \<Rightarrow> 'z TWNHIICCService_scheme \<Rightarrow> int option \<Rightarrow> exn + NHICard list" where
  "getCardList fetch this timeout_arg =
     (let timeout = (case timeout_arg of None \<Rightarrow> 15000 | Some ms \<Rightarrow> ms)
      in case fetchWithTimeout fetch (apiGetCardList this) \<lparr>signal = None, timeout = Some timeout\<rparr> of
           Inl error \<Rightarrow> Inl error
         | Inr cards \<Rightarrow> Inr (mapCardList cards))"

text \<open>
  The transport capability the library consumes, as the platform provides it: one exchange
  with the remote service on a clock that starts at the call. The service either cannot be
  reached (the attempt fails at a given millisecond with an error that has a name and a
  message), or it answers: the status line arrives at \<open>headers_at\<close>, the body is complete at
  \<open>body_at\<close>, and the body is the text \<open>body_text\<close>, which parses as JSON to \<open>body_json\<close>.
  A signal made by \<^verbatim>\<open>AbortSignal.timeout(ms)\<close> aborts whatever has not happened before
  millisecond \<open>ms\<close> with a \<^verbatim>\<open>DOMException\<close> named \<^verbatim>\<open>TimeoutError\<close>. The
  platform's timer (Node's) takes a delay below 1 ms, or above 2147483647 ms, as 1 ms.
\<close>

record 'a answer =
  headers_at :: nat
  status_code :: nat
  body_at :: nat
  body_text :: string
  body_json :: "exn + 'a"

datatype 'a remote = Unreachable nat string string | Answers "'a answer"

definition timer_delay :: "nat \<Rightarrow> nat" where
  "timer_delay ms = (if ms < 1 \<or> 2147483647 < ms then 1 else ms)"

fun elapsed :: "AbortSignal option \<Rightarrow> nat \<Rightarrow> bool" where
  "elapsed None t = False"
| "elapsed (Some (AbortSignal_timeout ms)) t = (timer_delay ms \<le> t)"

definition aborted :: exn where
  "aborted = DOMException ''TimeoutError'' ''The operation was aborted due to timeout''"

definition platform_fetch :: "'a remote \<Rightarrow> 'a fetch" where
  "platform_fetch r url sig =
     (case r of
        Unreachable t name msg \<Rightarrow>
          if elapsed sig t then Rejected aborted else Rejected (Error name msg)
      | Answers a \<Rightarrow>
          if elapsed sig (headers_at a) then Rejected aborted
          else Fulfilled
            \<lparr> status = status_code a,
              json = (if elapsed sig (body_at a) then Inl aborted else body_json a),
              text' = (if elapsed sig (body_at a) then Inl aborted else Inr (body_text a)) \<rparr>)"

text \<open>A service object as the constructor leaves it; the four addresses are given.\<close>

definition new_TWNHIICCService :: "string \<Rightarrow> string \<Rightarrow> string \<Rightarrow> string \<Rightarrow> TWNHIICCService" where
  "new_TWNHIICCService prefix cardList version ws =
     \<lparr> urlPrefix = prefix, apiGetCardList = cardList, apiGetVersion = version,
       apiWebsocket = ws, webSocket = None, webSocketInterval = None,
       onWebSocketRetry = None, onWebSocketUpdate = None \<rparr>"

definition default_service :: TWNHIICCService where
  "default_service =
     new_TWNHIICCService ''http://127.0.0.1:12345'' ''http://127.0.0.1:12345/''
       ''http://127.0.0.1:12345/version'' ''ws://127.0.0.1:12345/ws''"

section \<open>The live update channel\<close>

subsection \<open>Sockets, as the platform provides them\<close>

datatype readyState = CONNECTING | OPEN | CLOSING | CLOSED

text \<open>
  The address a socket is opened on: the service's WebSocket address and the value appended
  to its search parameters under \<^verbatim>\<open>interval\<close>, when one was appended. The number is kept as
  it is; rendering it is left to the platform.
\<close>

record URL =
  href :: string
  interval_param :: "number option"

text \<open>
  The handlers \<open>openWebSocket\<close> installs are closures over the service object only, so each
  is named by the place that creates it: the two \<^verbatim>\<open>onopen\<close> and the two \<^verbatim>\<open>onerror\<close> functions
  (those of the first socket, and those of a socket made by \<^verbatim>\<open>retry\<close>), \<^verbatim>\<open>onclose\<close> and
  \<^verbatim>\<open>onmessage\<close>. A handler that is \<^verbatim>\<open>null\<close> or was never set is \<open>None\<close>.
\<close>

datatype onopen_handler = webSocket_onopen | newWebSocket_onopen
datatype onerror_handler = webSocket_onerror | newWebSocket_onerror
datatype onclose_handler = onclose_closure
datatype onmessage_handler = onmessage_closure

text \<open>
  A socket. \<open>sent\<close> lists the arguments of \<^verbatim>\<open>send\<close>, \<open>close_code\<close> the argument of the first
  \<^verbatim>\<open>close\<close>. \<open>constructed_at\<close> (the clock when \<^verbatim>\<open>new WebSocket\<close> ran) and \<open>constructed_by\<close> (the
  invocation of \<^verbatim>\<open>retry\<close> that ran it, none for the socket of \<open>openWebSocket\<close>) are
  bookkeeping of the model; no function of the library reads them.
\<close>

record WebSocket =
  url :: URL
  readyState :: readyState
  onopen :: "onopen_handler option"
  onerror :: "onerror_handler option"
  onclose :: "onclose_handler option"
  onmessage :: "onmessage_handler option"
  sent :: "number list"
  close_code :: "nat option"
  constructed_at :: nat
  constructed_by :: "nat option"

definition new_WebSocket :: "URL \<Rightarrow> nat \<Rightarrow> nat option \<Rightarrow> WebSocket" where
  "new_WebSocket u clock maker =
     \<lparr> url = u, readyState = CONNECTING, onopen = None, onerror = None, onclose = None,
       onmessage = None, sent = [], close_code = None, constructed_at = clock,
       constructed_by = maker \<rparr>"

subsection \<open>The state of a running client\<close>

text \<open>
  One invocation of the \<^verbatim>\<open>retry\<close> closure: the time \<open>t\<close> it read from \<^verbatim>\<open>Date.now()\<close> when it
  started, and where it stands: suspended at \<^verbatim>\<open>await this.onWebSocketRetry()\<close> (with what the
  hook did when it was called), suspended at \<^verbatim>\<open>await sleep(...)\<close>, or returned. \<open>caused_by\<close> is
  the socket whose \<^verbatim>\<open>error\<close> or \<^verbatim>\<open>close\<close> event invoked it (bookkeeping of the model).
\<close>

datatype stage = AwaitingPolicy hook | Sleeping nat | Returned

record retry_call =
  t :: nat
  stage :: stage
  caused_by :: nat

text \<open>How a call of \<open>openWebSocket\<close> ended: it returned, or it threw
  \<^verbatim>\<open>new NetworkError(tryError)\<close>, or it threw the \<^verbatim>\<open>NetworkError\<close> whose message is
  \<^verbatim>\<open>Cannot connect to\<close> followed by the address.\<close>

datatype open_outcome = Returned_void | Threw exn | Threw_cannot_connect URL

datatype console_entry = console_error exn | console_debug_reconnect URL

text \<open>
  The service object together with everything around it that its handlers act on: the
  sockets constructed so far (a socket is named by its position), the invocations of
  \<^verbatim>\<open>retry\<close>, the calls of \<open>openWebSocket\<close> that have ended (by the socket each one made), the
  console, the exceptions that left an event handler, the arguments \<^verbatim>\<open>onWebSocketUpdate\<close> was
  called with, and the clock in milliseconds.
\<close>

record runtime = TWNHIICCService +
  sockets :: "WebSocket list"
  retries :: "retry_call list"
  opens :: "(nat \<times> open_outcome) list"
  console :: "console_entry list"
  uncaught :: "exn list"
  updates :: "NHICard list list"
  now :: nat

definition start :: "TWNHIICCService \<Rightarrow> runtime" where
  "start service =
     TWNHIICCService.extend service
       \<lparr> sockets = [], retries = [], opens = [], console = [], uncaught = [], updates = [],
         now = 0 \<rparr>"

definition update_socket :: "nat \<Rightarrow> (WebSocket \<Rightarrow> WebSocket) \<Rightarrow> runtime \<Rightarrow> runtime" where
  "update_socket s f this =
     (if s < length (sockets this) then this\<lparr>sockets := (sockets this)[s := f (sockets this ! s)]\<rparr>
      else this)"

definition set_stage :: "nat \<Rightarrow> stage \<Rightarrow> runtime \<Rightarrow> runtime" where
  "set_stage k st this =
     (if k < length (retries this)
      then this\<lparr>retries := (retries this)[k := (retries this ! k)\<lparr>stage := st\<rparr>]\<rparr>
      else this)"

text \<open>\<^verbatim>\<open>socket.close(code)\<close>: nothing on a socket that is closing or closed.\<close>

definition WebSocket_close :: "nat \<Rightarrow> WebSocket \<Rightarrow> WebSocket" where
  "WebSocket_close code ws =
     (if readyState ws = CLOSING \<or> readyState ws = CLOSED then ws
      else ws\<lparr>readyState := CLOSING, close_code := Some code\<rparr>)"

text \<open>\<^verbatim>\<open>socket.send(data)\<close>, recorded as the call that was made.\<close>

definition WebSocket_send :: "number \<Rightarrow> WebSocket \<Rightarrow> WebSocket" where
  "WebSocket_send data ws = ws\<lparr>sent := sent ws @ [data]\<rparr>"

subsection \<open>The library's functions\<close>

definition RETRY_INTERVAL :: int where
  "RETRY_INTERVAL = 1000"

text \<open>The clamping both \<open>openWebSocket\<close> and \<open>setWebSocketInterval\<close> write out.\<close>

definition clamp_interval :: "number \<Rightarrow> number" where
  "clamp_interval interval = (if lt_zero interval then Finite 0 else Math_floor interval)"

definition websocket_url :: "string \<Rightarrow> number option \<Rightarrow> URL" where
  "websocket_url api interval =
     (case interval of
        None \<Rightarrow> \<lparr>href = api, interval_param = None\<rparr>
      | Some i \<Rightarrow> \<lparr>href = api, interval_param = Some i\<rparr>)"

text \<open>
  \<open>openWebSocket\<close> up to its \<^verbatim>\<open>await\<close>. The default value 3 of the parameter stands in for
  an argument that is \<^verbatim>\<open>undefined\<close>. The call then waits for the promise, which the
  socket's \<^verbatim>\<open>onopen\<close> or \<^verbatim>\<open>onerror\<close> settles.
\<close>

definition openWebSocket :: "number option \<Rightarrow> runtime \<Rightarrow> runtime" where
  "openWebSocket interval_arg this =
     (if webSocket this \<noteq> None then this
      else
        let interval = Some (case interval_arg of None \<Rightarrow> Finite 3 | Some x \<Rightarrow> x);
            interval = (case interval of None \<Rightarrow> None | Some x \<Rightarrow> Some (clamp_interval x));
            u = websocket_url (apiWebsocket this) interval;
            ws = (new_WebSocket u (now this) None)
                   \<lparr>onopen := Some webSocket_onopen, onerror := Some webSocket_onerror\<rparr>
        in this\<lparr>webSocketInterval := interval, sockets := sockets this @ [ws]\<rparr>)"

definition isWebSocketRunning :: "runtime \<Rightarrow> bool" where
  "isWebSocketRunning this = (webSocket this \<noteq> None)"

definition closeWebSocket :: "runtime \<Rightarrow> runtime" where
  "closeWebSocket this =
     (case webSocket this of
        None \<Rightarrow> this
      | Some s \<Rightarrow> (update_socket s (WebSocket_close 1000) this)\<lparr>webSocket := None\<rparr>)"

definition setWebSocketInterval :: "number option \<Rightarrow> runtime \<Rightarrow> bool \<times> runtime" where
  "setWebSocketInterval interval this =
     (case webSocket this of
        None \<Rightarrow> (False, this)
      | Some s \<Rightarrow>
          (case interval of
             Some x \<Rightarrow>
               let x = clamp_interval x
               in (True, (update_socket s (WebSocket_send x) this)\<lparr>webSocketInterval := Some x\<rparr>)
           | None \<Rightarrow> (False, this\<lparr>webSocketInterval := None\<rparr>)))"

text \<open>
  The \<^verbatim>\<open>retry\<close> closure, cut at its two \<^verbatim>\<open>await\<close>s. \<open>retry_connect\<close> is the part after the
  delay: the check of \<^verbatim>\<open>this.webSocket\<close>, then the new socket with its two handlers.
\<close>

definition retry_connect :: "nat \<Rightarrow> runtime \<Rightarrow> runtime" where
  "retry_connect k this =
     (if webSocket this = None then set_stage k Returned this
      else
        let u = websocket_url (apiWebsocket this) (webSocketInterval this);
            newWebSocket = (new_WebSocket u (now this) (Some k))
                   \<lparr>onopen := Some newWebSocket_onopen, onerror := Some newWebSocket_onerror\<rparr>
        in (set_stage k Returned this)
             \<lparr>console := console this @ [console_debug_reconnect u],
              sockets := sockets this @ [newWebSocket]\<rparr>)"

text \<open>
  Modelled from the spec: \<^verbatim>\<open>sleep.js\<close> is not among the sources. The spec names it a
  capability "to suspend the current operation for a given duration": \<^verbatim>\<open>await sleep(ms)\<close>
  called at clock \<open>c\<close> leaves the invocation at \<open>Sleeping (c + ms)\<close>, and it resumes at a
  clock that is not before that.
\<close>

definition sleep :: "nat \<Rightarrow> int \<Rightarrow> runtime \<Rightarrow> runtime" where
  "sleep k ms this = set_stage k (Sleeping (now this + nat ms)) this"

text \<open>The part between the two \<^verbatim>\<open>await\<close>s: \<^verbatim>\<open>d = Date.now() - t\<close> and the delay.\<close>

definition retry_delay :: "nat \<Rightarrow> runtime \<Rightarrow> runtime" where
  "retry_delay k this =
     (let d = int (now this) - int (t (retries this ! k))
      in if d < RETRY_INTERVAL then sleep k (RETRY_INTERVAL - d) this
         else retry_connect k this)"

text \<open>What \<^verbatim>\<open>await\<close> makes of a hook's call: a value, or an exception at the \<^verbatim>\<open>await\<close>.\<close>

fun await :: "hook \<Rightarrow> exn + js_value" where
  "await (Returns v) = Inr v"
| "await (Fulfils v) = Inr v"
| "await (Throws e) = Inl e"
| "await (RejectsWith e) = Inl e"

text \<open>\<open>retry\<close> from its start to its first suspension; \<open>s\<close> is the socket whose event
  invoked it.\<close>

definition retry :: "nat \<Rightarrow> runtime \<Rightarrow> runtime" where
  "retry s this =
     (let k = length (retries this);
          this = this\<lparr>retries := retries this @ [\<lparr>t = now this, stage = Returned, caused_by = s\<rparr>]\<rparr>
      in case onWebSocketRetry this of
           Some h \<Rightarrow> set_stage k (AwaitingPolicy h) this
         | None \<Rightarrow> retry_delay k this)"

text \<open>\<open>retry\<close> resumed when the hook's call has settled.\<close>

definition retry_resume :: "nat \<Rightarrow> hook \<Rightarrow> runtime \<Rightarrow> runtime" where
  "retry_resume k h this =
     (case await h of
        Inr result \<Rightarrow>
          if result = JSBool False then set_stage k Returned (this\<lparr>webSocket := None\<rparr>)
          else retry_delay k this
      | Inl error \<Rightarrow> retry_delay k (this\<lparr>console := console this @ [console_error error]\<rparr>))"

definition onclose_fn :: "nat \<Rightarrow> runtime \<Rightarrow> runtime" where
  "onclose_fn s this = (if webSocket this = None then this else retry s this)"

text \<open>
  The message payload after \<^verbatim>\<open>JSON.parse\<close>: the wire array, or text that does not parse.
  \<open>onmessage_fn\<close> returns the exception that leaves the handler, if one does.
\<close>

datatype payload = Cards "ServiceNHICard list" | Malformed

definition onmessage_fn :: "payload \<Rightarrow> runtime \<Rightarrow> exn option \<times> runtime" where
  "onmessage_fn data this =
     (case onWebSocketUpdate this of
        None \<Rightarrow> (None, this)
      | Some h \<Rightarrow>
          (case data of
             Malformed \<Rightarrow> (Some (Error ''SyntaxError'' ''Unexpected token''), this)
           | Cards cards \<Rightarrow>
               let this = this\<lparr>updates := updates this @ [mapCardList cards]\<rparr>
               in case h of
                    Throws e \<Rightarrow> (Some e, this)
                  | Returns v \<Rightarrow> (None, this)
                  | Fulfils v \<Rightarrow> (None, this)
                  | RejectsWith e \<Rightarrow> (None, this\<lparr>console := console this @ [console_error e]\<rparr>)))"

text \<open>
  The handlers of the first socket and of a socket made by \<open>retry\<close>. In \<^verbatim>\<open>webSocket.onerror\<close>
  the event's \<^verbatim>\<open>error\<close> is \<open>None\<close> when it is \<^verbatim>\<open>undefined\<close>; when it is \<^verbatim>\<open>null\<close> the handler
  throws while it reads \<^verbatim>\<open>tryError.name\<close>, and the promise of \<open>openWebSocket\<close> is not settled.
\<close>

definition install_handlers :: "WebSocket \<Rightarrow> WebSocket" where
  "install_handlers ws =
     ws\<lparr>onerror := None, onclose := Some onclose_closure, onmessage := Some onmessage_closure\<rparr>"

definition onopen_fn :: "onopen_handler \<Rightarrow> nat \<Rightarrow> runtime \<Rightarrow> runtime" where
  "onopen_fn h s this =
     (case h of
        webSocket_onopen \<Rightarrow>
          (update_socket s install_handlers this)
            \<lparr>webSocket := Some s, opens := opens this @ [(s, Returned_void)]\<rparr>
      | newWebSocket_onopen \<Rightarrow>
          (update_socket s install_handlers this)\<lparr>webSocket := Some s\<rparr>)"

definition onerror_fn :: "onerror_handler \<Rightarrow> nat \<Rightarrow> exn option \<Rightarrow> runtime \<Rightarrow> runtime" where
  "onerror_fn h s event_error this =
     (case h of
        webSocket_onerror \<Rightarrow>
          (case event_error of
             None \<Rightarrow> this\<lparr>opens := opens this @ [(s, Threw_cannot_connect (url (sockets this ! s)))]\<rparr>
           | Some tryError \<Rightarrow>
               if is_nullish tryError
               then this\<lparr>uncaught := uncaught this @ [property_TypeError]\<rparr>
               else if has_name_and_message tryError
               then this\<lparr>opens := opens this @ [(s, Threw (new_NetworkError tryError))]\<rparr>
               else this\<lparr>opens := opens this @ [(s, Threw_cannot_connect (url (sockets this ! s)))]\<rparr>)
      | newWebSocket_onerror \<Rightarrow> retry s this)"


subsection \<open>Events\<close>

text \<open>
  Everything happens in one thread, one event at a time. An event is a call of a public
  method, an assignment to one of the two public hooks, an event the platform delivers on a
  socket, the settling of the retry hook's call, the end of a delay, or the passing of
  time. The platform delivers \<^verbatim>\<open>open\<close> to a connecting socket only; when a connection fails
  or breaks it closes the socket and delivers \<^verbatim>\<open>error\<close> and then \<^verbatim>\<open>close\<close>; a clean shutdown
  delivers \<^verbatim>\<open>close\<close> alone; \<^verbatim>\<open>message\<close> comes on an open socket. An event that cannot happen
  in a state leaves it as it is.

  The continuation of \<open>openWebSocket\<close> after its \<^verbatim>\<open>await\<close> runs in the microtask that follows
  \<^verbatim>\<open>resolve\<close>, before anything else, so it is part of the \<^verbatim>\<open>open\<close> event. The settling of
  the retry hook's call is an event of its own also when the hook returned or threw at once:
  this only adds runs. A rejection of the promise the update hook returned is logged with
  the message that caused it.
\<close>

datatype event =
    Call_openWebSocket "number option"
  | Call_closeWebSocket
  | Call_setWebSocketInterval "number option"
  | Set_onWebSocketRetry "hook option"
  | Set_onWebSocketUpdate "hook option"
  | Opened nat
  | Failed nat "exn option"
  | ClosedCleanly nat
  | Message nat payload
  | PolicySettled nat
  | TimerFired nat
  | Tick nat

definition set_readyState :: "readyState \<Rightarrow> WebSocket \<Rightarrow> WebSocket" where
  "set_readyState r ws = ws\<lparr>readyState := r\<rparr>"

definition error_event :: "nat \<Rightarrow> exn option \<Rightarrow> runtime \<Rightarrow> runtime" where
  "error_event s event_error this =
     (case onerror (sockets this ! s) of
        None \<Rightarrow> this
      | Some h \<Rightarrow> onerror_fn h s event_error this)"

definition close_event :: "nat \<Rightarrow> runtime \<Rightarrow> runtime" where
  "close_event s this =
     (case onclose (sockets this ! s) of
        None \<Rightarrow> this
      | Some onclose_closure \<Rightarrow> onclose_fn s this)"

definition opened :: "nat \<Rightarrow> runtime \<Rightarrow> runtime" where
  "opened s this =
     (if s < length (sockets this) \<and> readyState (sockets this ! s) = CONNECTING then
        (case onopen (sockets this ! s) of
           None \<Rightarrow> update_socket s (set_readyState OPEN) this
         | Some h \<Rightarrow> onopen_fn h s (update_socket s (set_readyState OPEN) this))
      else this)"

definition failed :: "nat \<Rightarrow> exn option \<Rightarrow> runtime \<Rightarrow> runtime" where
  "failed s event_error this =
     (if s < length (sockets this) \<and> readyState (sockets this ! s) \<noteq> CLOSED then
        close_event s (error_event s event_error (update_socket s (set_readyState CLOSED) this))
      else this)"

definition closed_cleanly :: "nat \<Rightarrow> runtime \<Rightarrow> runtime" where
  "closed_cleanly s this =
     (if s < length (sockets this) \<and>
         (readyState (sockets this ! s) = OPEN \<or> readyState (sockets this ! s) = CLOSING) then
        close_event s (update_socket s (set_readyState CLOSED) this)
      else this)"

definition message_event :: "nat \<Rightarrow> payload \<Rightarrow> runtime \<Rightarrow> runtime" where
  "message_event s data this =
     (if s < length (sockets this) \<and> readyState (sockets this ! s) = OPEN then
        (case onmessage (sockets this ! s) of
           None \<Rightarrow> this
         | Some onmessage_closure \<Rightarrow>
             (case onmessage_fn data this of
                (None, this') \<Rightarrow> this'
              | (Some e, this') \<Rightarrow> this'\<lparr>uncaught := uncaught this' @ [e]\<rparr>))
      else this)"

definition policy_settled :: "nat \<Rightarrow> runtime \<Rightarrow> runtime" where
  "policy_settled k this =
     (if k < length (retries this) then
        (case stage (retries this ! k) of
           AwaitingPolicy h \<Rightarrow> retry_resume k h this
         | Sleeping wake \<Rightarrow> this
         | Returned \<Rightarrow> this)
      else this)"

definition timer_fired :: "nat \<Rightarrow> runtime \<Rightarrow> runtime" where
  "timer_fired k this =
     (if k < length (retries this) then
        (case stage (retries this ! k) of
           Sleeping wake \<Rightarrow> if wake \<le> now this then retry_connect k this else this
         | AwaitingPolicy h \<Rightarrow> this
         | Returned \<Rightarrow> this)
      else this)"

fun step :: "event \<Rightarrow> runtime \<Rightarrow> runtime" where
  "step (Call_openWebSocket interval) this = openWebSocket interval this"
| "step Call_closeWebSocket this = closeWebSocket this"
| "step (Call_setWebSocketInterval interval) this = snd (setWebSocketInterval interval this)"
| "step (Set_onWebSocketRetry h) this = this\<lparr>onWebSocketRetry := h\<rparr>"
| "step (Set_onWebSocketUpdate h) this = this\<lparr>onWebSocketUpdate := h\<rparr>"
| "step (Opened s) this = opened s this"
| "step (Failed s event_error) this = failed s event_error this"
| "step (ClosedCleanly s) this = closed_cleanly s this"
| "step (Message s data) this = message_event s data this"
| "step (PolicySettled k) this = policy_settled k this"
| "step (TimerFired k) this = timer_fired k this"
| "step (Tick ms) this = this\<lparr>now := now this + ms\<rparr>"

fun run :: "event list \<Rightarrow> runtime \<Rightarrow> runtime" where
  "run [] this = this"
| "run (e # es) this = run es (step e this)"

fun is_open_call :: "event \<Rightarrow> bool" where
  "is_open_call (Call_openWebSocket interval) = True"
| "is_open_call e = False"

subsection \<open>The connection states of the specification\<close>

text \<open>
  The four states the specification speaks of, read off the state of the client. The
  channel is \<open>Connecting\<close> while a socket made by \<open>openWebSocket\<close> is connecting and the
  channel holds no socket; it is \<open>Closed\<close> when it holds none and no first attempt is
  under way (initially, after \<open>closeWebSocket\<close>, after a veto); it is \<open>Open\<close> when the socket
  it holds is open; it is \<open>Retrying\<close> when the socket it holds is no longer open, which is
  the reconnect sequence from the drop to the next successful connection.
\<close>

datatype ConnectionState = Closed | Connecting | Open | Retrying

definition first_attempt_pending :: "runtime \<Rightarrow> bool" where
  "first_attempt_pending this =
     list_ex (\<lambda>ws. readyState ws = CONNECTING \<and> onopen ws = Some webSocket_onopen) (sockets this)"

definition connectionState :: "runtime \<Rightarrow> ConnectionState" where
  "connectionState this =
     (case webSocket this of
        None \<Rightarrow> if first_attempt_pending this then Connecting else Closed
      | Some s \<Rightarrow>
          if s < length (sockets this) \<and> readyState (sockets this ! s) = OPEN then Open
          else Retrying)"


subsection \<open>The state machine of the specification, followed along a run\<close>

text \<open>
  The specification describes the channel by transitions between its four states. Here
  they are followed along a run, event by event, from what happens to the sockets and to
  the invocations of \<^verbatim>\<open>retry\<close>; the field \<^verbatim>\<open>this.webSocket\<close> is not read.
  \<^item> \<open>Closed\<close>: a call of \<open>openWebSocket\<close> leads to \<open>Connecting\<close>. Nothing else leaves
    \<open>Closed\<close>: in the specification a connection that completes after the channel was
    closed is discarded.
  \<^item> \<open>Connecting\<close>: a connection that succeeds leads to \<open>Open\<close>, the failure of a first
    attempt back to \<open>Closed\<close>.
  \<^item> \<open>Open\<close>: the disconnect of an open socket leads to \<open>Retrying\<close>.
  \<^item> \<open>Retrying\<close>: a connection that succeeds leads to \<open>Open\<close>; a failed attempt stays in
    \<open>Retrying\<close>.
  \<^item> \<open>Open\<close> and \<open>Retrying\<close>: a call of \<open>closeWebSocket\<close>, and a retry hook that resolves to
    exactly \<^verbatim>\<open>false\<close>, lead to \<open>Closed\<close>.
\<close>

fun is_close_call :: "event \<Rightarrow> bool" where
  "is_close_call Call_closeWebSocket = True"
| "is_close_call e = False"

fun connects :: "event \<Rightarrow> runtime \<Rightarrow> bool" where
  "connects (Opened s) w =
     (s < length (sockets w) \<and> readyState (sockets w ! s) = CONNECTING \<and>
      onopen (sockets w ! s) \<noteq> None)"
| "connects e w = False"

fun first_attempt_fails :: "event \<Rightarrow> runtime \<Rightarrow> bool" where
  "first_attempt_fails (Failed s event_error) w =
     (s < length (sockets w) \<and> readyState (sockets w ! s) = CONNECTING \<and>
      onopen (sockets w ! s) = Some webSocket_onopen)"
| "first_attempt_fails e w = False"

fun disconnects :: "event \<Rightarrow> runtime \<Rightarrow> bool" where
  "disconnects (Failed s event_error) w =
     (s < length (sockets w) \<and> readyState (sockets w ! s) = OPEN)"
| "disconnects (ClosedCleanly s) w =
     (s < length (sockets w) \<and> readyState (sockets w ! s) = OPEN)"
| "disconnects e w = False"

fun vetoes :: "event \<Rightarrow> runtime \<Rightarrow> bool" where
  "vetoes (PolicySettled k) w =
     (k < length (retries w) \<and>
      (case stage (retries w ! k) of
         AwaitingPolicy h \<Rightarrow> await h = Inr (JSBool False)
       | Sleeping wake \<Rightarrow> False
       | Returned \<Rightarrow> False))"
| "vetoes e w = False"

definition spec_step :: "event \<Rightarrow> runtime \<Rightarrow> ConnectionState \<Rightarrow> ConnectionState" where
  "spec_step e w c =
     (case c of
        Closed \<Rightarrow> if is_open_call e then Connecting else Closed
      | Connecting \<Rightarrow>
          if connects e w then Open
          else if first_attempt_fails e w then Closed
          else Connecting
      | Open \<Rightarrow>
          if is_close_call e \<or> vetoes e w then Closed
          else if disconnects e w then Retrying
          else Open
      | Retrying \<Rightarrow>
          if is_close_call e \<or> vetoes e w then Closed
          else if connects e w then Open
          else Retrying)"

fun spec_run :: "event list \<Rightarrow> runtime \<Rightarrow> ConnectionState \<Rightarrow> ConnectionState" where
  "spec_run [] w c = c"
| "spec_run (e # es) w c = spec_run es (step e w) (spec_step e w c)"

text \<open>
  A run in which no connection completes while the state is \<open>Closed\<close>. (A reconnect attempt
  that completes after \<open>closeWebSocket\<close> is the case in which the code and the specification
  part.)
\<close>

fun no_completion_while_Closed :: "event list \<Rightarrow> runtime \<Rightarrow> ConnectionState \<Rightarrow> bool" where
  "no_completion_while_Closed [] w c = True"
| "no_completion_while_Closed (e # es) w c =
     (\<not> (c = Closed \<and> connects e w) \<and>
      no_completion_while_Closed es (step e w) (spec_step e w c))"

text \<open>The states in which the specification has the channel hold a socket.\<close>

definition holds_socket :: "ConnectionState \<Rightarrow> bool" where
  "holds_socket c = (c = Open \<or> c = Retrying)"

subsection \<open>Predicates on states\<close>

text \<open>
  The timing invariant of the reconnect sequence. Every invocation of \<^verbatim>\<open>retry\<close> started no
  later than now and no earlier than the construction of the socket whose event invoked
  it, and when it sleeps it sleeps until exactly 1000 ms after its start; every socket
  was constructed no later than now, and one made by an invocation of \<^verbatim>\<open>retry\<close> was
  constructed at least 1000 ms after that invocation started.
\<close>

definition timing_ok :: "runtime \<Rightarrow> bool" where
  "timing_ok w =
     ((\<forall>k < length (retries w).
         t (retries w ! k) \<le> now w \<and>
         caused_by (retries w ! k) < length (sockets w) \<and>
         constructed_at (sockets w ! caused_by (retries w ! k)) \<le> t (retries w ! k) \<and>
         (\<forall>wake. stage (retries w ! k) = Sleeping wake \<longrightarrow> wake = t (retries w ! k) + 1000)) \<and>
      (\<forall>j < length (sockets w).
         constructed_at (sockets w ! j) \<le> now w \<and>
         (\<forall>k. constructed_by (sockets w ! j) = Some k \<longrightarrow>
            k < length (retries w) \<and> t (retries w ! k) + 1000 \<le> constructed_at (sockets w ! j))))"



text \<open>
  What holds of the handlers in every state a run reaches: a connecting socket has its
  \<^verbatim>\<open>onopen\<close>; a socket that is open or closing has the handlers that \<^verbatim>\<open>onopen\<close> installed;
  and the socket the channel holds is not a connecting one.
\<close>

definition handlers_ok :: "runtime \<Rightarrow> bool" where
  "handlers_ok w =
     (list_all
        (\<lambda>ws. (readyState ws = CONNECTING \<longrightarrow> onopen ws \<noteq> None) \<and>
              (readyState ws = OPEN \<or> readyState ws = CLOSING \<longrightarrow>
                 onerror ws = None \<and> onclose ws = Some onclose_closure \<and>
                 onmessage ws = Some onmessage_closure))
        (sockets w) \<and>
      (\<forall>s. webSocket w = Some s \<longrightarrow>
         s < length (sockets w) \<and> readyState (sockets w ! s) \<noteq> CONNECTING))"

section \<open>Card-list reshaping\<close>

lemma new_Date_cases:
  "(\<bar>n\<bar> \<le> 8640000000000000 \<longrightarrow> new_Date (Finite (of_int n)) = Date n) \<and>
   (\<bar>r\<bar> \<le> 8640000000000000 \<longrightarrow> new_Date (Finite r) = Date (trunc r)) \<and>
   (8640000000000000 < \<bar>r\<bar> \<longrightarrow> new_Date (Finite r) = Invalid_Date)"
proof -
  have "\<bar>n\<bar> \<le> 8640000000000000 \<Longrightarrow> \<bar>of_int n :: rat\<bar> \<le> 8640000000000000"
  proof -
    assume "\<bar>n\<bar> \<le> 8640000000000000"
    then have "(of_int \<bar>n\<bar> :: rat) \<le> of_int 8640000000000000"
      by (simp only: of_int_le_iff)
    then show ?thesis by simp
  qed
  then show ?thesis by (auto simp: trunc_def)
qed

lemma new_Date_not_finite:
  "new_Date NaN = Invalid_Date \<and> new_Date PosInfinity = Invalid_Date \<and>
   new_Date NegInfinity = Invalid_Date"
  by simp

text \<open>
  Claim C9 says that for every wire record \<open>birthday\<close> is the point in time at
  epoch-millisecond \<open>birth_date_timestamp\<close>. \<^verbatim>\<open>new Date\<close> has no such point for a timestamp
  above 8.64e15: the record gets the invalid date.
\<close>

theorem timestamp_beyond_the_range_of_Date:
  "birthday (mapCardList
     [\<lparr> reader_name = ''R1'', card_no = ''000011112222'', full_name = ''A'', id_no = ''A123456789'',
        birth_date = ''275760-09-13'', birth_date_timestamp = Finite 8640000000000001, sex = F,
        issue_date = ''2010-03-04'', issue_date_timestamp = Finite 1267660800000 \<rparr>] ! 0)
   = Invalid_Date \<and>
   birthday (mapCardList
     [\<lparr> reader_name = ''R1'', card_no = ''000011112222'', full_name = ''A'', id_no = ''A123456789'',
        birth_date = ''275760-09-13'', birth_date_timestamp = Finite 8640000000000001, sex = F,
        issue_date = ''2010-03-04'', issue_date_timestamp = Finite 1267660800000 \<rparr>] ! 0)
   \<noteq> Date 8640000000000001"
  by (simp add: mapCardList_def)

text \<open>
  Claim C9, amended. \<open>mapCardList\<close>, which both \<open>getCardList\<close> and the message handler apply
  to the wire array, returns one record per wire record, in the wire's order, and the record
  at each position carries the wire record's reader name, card number, full name, identity
  number and sex unchanged, and for its two dates what \<^verbatim>\<open>new Date\<close> makes of the wire's two
  timestamps: for a timestamp that is a whole number of milliseconds of magnitude at most
  8.64e15, the point in time at that epoch millisecond; for a fractional one in that range,
  the point in time at the timestamp truncated towards zero; for one beyond that range or
  not finite, the invalid date.
\<close>

theorem mapCardList_elementwise:
  "length (mapCardList cards) = length cards \<and>
   (\<forall>i < length cards.
      readerName (mapCardList cards ! i) = reader_name (cards ! i) \<and>
      cardNo (mapCardList cards ! i) = card_no (cards ! i) \<and>
      fullName (mapCardList cards ! i) = full_name (cards ! i) \<and>
      idNo (mapCardList cards ! i) = id_no (cards ! i) \<and>
      sex' (mapCardList cards ! i) = sex (cards ! i) \<and>
      birthday (mapCardList cards ! i) = new_Date (birth_date_timestamp (cards ! i)) \<and>
      issueDate (mapCardList cards ! i) = new_Date (issue_date_timestamp (cards ! i)) \<and>
      (\<forall>n. birth_date_timestamp (cards ! i) = Finite (of_int n) \<and> \<bar>n\<bar> \<le> 8640000000000000 \<longrightarrow>
         birthday (mapCardList cards ! i) = Date n) \<and>
      (\<forall>n. issue_date_timestamp (cards ! i) = Finite (of_int n) \<and> \<bar>n\<bar> \<le> 8640000000000000 \<longrightarrow>
         issueDate (mapCardList cards ! i) = Date n) \<and>
      (\<forall>r. birth_date_timestamp (cards ! i) = Finite r \<and> \<bar>r\<bar> \<le> 8640000000000000 \<longrightarrow>
         birthday (mapCardList cards ! i) = Date (trunc r)) \<and>
      (\<forall>r. issue_date_timestamp (cards ! i) = Finite r \<and> \<bar>r\<bar> \<le> 8640000000000000 \<longrightarrow>
         issueDate (mapCardList cards ! i) = Date (trunc r)) \<and>
      (birth_date_timestamp (cards ! i) \<in> {NaN, PosInfinity, NegInfinity} \<or>
       (\<exists>r. birth_date_timestamp (cards ! i) = Finite r \<and> 8640000000000000 < \<bar>r\<bar>) \<longrightarrow>
         birthday (mapCardList cards ! i) = Invalid_Date) \<and>
      (issue_date_timestamp (cards ! i) \<in> {NaN, PosInfinity, NegInfinity} \<or>
       (\<exists>r. issue_date_timestamp (cards ! i) = Finite r \<and> 8640000000000000 < \<bar>r\<bar>) \<longrightarrow>
         issueDate (mapCardList cards ! i) = Invalid_Date))"
  using new_Date_cases new_Date_not_finite
  by (auto simp: mapCardList_def simp del: new_Date.simps)

theorem mapCardList_elementwise_witness:
  "length (mapCardList example_cards) = 2 \<and>
   readerName (mapCardList example_cards ! 1) = ''R2'' \<and>
   birthday (mapCardList example_cards ! 1) = Date (- 86400000) \<and>
   issueDate (mapCardList example_cards ! 0) = Date 1267660800000"
proof -
  have l: "length example_cards = 2" and i0: "0 < length example_cards"
    and i1: "1 < length example_cards"
    by (simp_all add: example_cards_def)
  have r: "reader_name (example_cards ! 1) = ''R2''"
    by (simp add: example_cards_def)
  have b: "birth_date_timestamp (example_cards ! 1) = Finite (of_int (- 86400000))"
    and bn: "\<bar>- 86400000 :: int\<bar> \<le> 8640000000000000"
    by (simp_all add: example_cards_def)
  have d: "issue_date_timestamp (example_cards ! 0) = Finite (of_int 1267660800000)"
    and dn: "\<bar>1267660800000 :: int\<bar> \<le> 8640000000000000"
    by (simp_all add: example_cards_def)
  note th = mapCardList_elementwise [of example_cards]
  from th l have A: "length (mapCardList example_cards) = 2"
    by simp
  from th i1 r have B: "readerName (mapCardList example_cards ! 1) = ''R2''"
    by simp
  from th i1 b bn have C: "birthday (mapCardList example_cards ! 1) = Date (- 86400000)"
    by blast
  from th i0 d dn have D: "issueDate (mapCardList example_cards ! 0) = Date 1267660800000"
    by blast
  from A B C D show ?thesis by blast
qed

text \<open>Both callers apply \<open>mapCardList\<close> to the array they received, and nothing else.\<close>

lemma mapCardList_is_what_both_paths_apply:
  "getCardList fetch this timeout_arg =
     (case fetchWithTimeout fetch (apiGetCardList this)
             \<lparr>signal = None,
              timeout = Some (case timeout_arg of None \<Rightarrow> 15000 | Some ms \<Rightarrow> ms)\<rparr> of
        Inl error \<Rightarrow> Inl error
      | Inr cards \<Rightarrow> Inr (mapCardList cards))"
  "onWebSocketUpdate w = Some h \<Longrightarrow>
     updates (snd (onmessage_fn (Cards cards) w)) = updates w @ [mapCardList cards]"
  by (simp_all add: getCardList_def onmessage_fn_def Let_def split: hook.splits)

section \<open>The timed request: what it returns and how it fails\<close>

text \<open>
  What the timed request does with time-outs and unreachable services on the paths where
  the claims hold, on this model of the transport: a budget that ends before the status
  line arrives, or, for status 200, while the body is read, ends in \<open>TimeoutError\<close>; a
  service that cannot be reached within the budget (or with no budget, for a negative
  argument) ends in \<open>NetworkError\<close> with the transport's message. A budget of zero ends in
  \<open>TimeoutError\<close> for every exchange that takes a millisecond or more.
\<close>

lemma timed_request_timeouts_and_network_errors:
  "0 \<le> ms \<Longrightarrow> timer_delay (nat ms) \<le> headers_at a \<Longrightarrow>
     getVersion (platform_fetch (Answers a)) this (Some ms) = Inl (TimeoutError ''request timeout'')"
  "0 \<le> ms \<Longrightarrow> headers_at a < timer_delay (nat ms) \<Longrightarrow> timer_delay (nat ms) \<le> body_at a \<Longrightarrow>
     status_code a = 200 \<Longrightarrow>
     getVersion (platform_fetch (Answers a)) this (Some ms) = Inl (TimeoutError ''body timeout'')"
  "0 \<le> ms \<Longrightarrow> c < timer_delay (nat ms) \<Longrightarrow>
     getVersion (platform_fetch (Unreachable c name msg)) this (Some ms) = Inl (NetworkError msg)"
  "ms < 0 \<Longrightarrow>
     getVersion (platform_fetch (Unreachable c name msg)) this (Some ms) = Inl (NetworkError msg)"
  "0 < headers_at a \<Longrightarrow>
     getVersion (platform_fetch (Answers a)) this (Some 0) = Inl (TimeoutError ''request timeout'')"
  "0 < headers_at a' \<Longrightarrow>
     getCardList (platform_fetch (Answers a')) this (Some 0) = Inl (TimeoutError ''request timeout'')"
proof -
  have z: "timer_delay 0 = 1"
    by (simp add: timer_delay_def)
  show "0 \<le> ms \<Longrightarrow> timer_delay (nat ms) \<le> headers_at a \<Longrightarrow>
     getVersion (platform_fetch (Answers a)) this (Some ms) = Inl (TimeoutError ''request timeout'')"
    by (simp add: getVersion_def fetchWithTimeout_def platform_fetch_def aborted_def)
  show "0 \<le> ms \<Longrightarrow> headers_at a < timer_delay (nat ms) \<Longrightarrow> timer_delay (nat ms) \<le> body_at a \<Longrightarrow>
     status_code a = 200 \<Longrightarrow>
     getVersion (platform_fetch (Answers a)) this (Some ms) = Inl (TimeoutError ''body timeout'')"
    by (simp add: getVersion_def fetchWithTimeout_def platform_fetch_def aborted_def)
  show "0 \<le> ms \<Longrightarrow> c < timer_delay (nat ms) \<Longrightarrow>
     getVersion (platform_fetch (Unreachable c name msg)) this (Some ms) = Inl (NetworkError msg)"
    by (simp add: getVersion_def fetchWithTimeout_def platform_fetch_def aborted_def
        new_NetworkError_def)
  show "ms < 0 \<Longrightarrow>
     getVersion (platform_fetch (Unreachable c name msg)) this (Some ms) = Inl (NetworkError msg)"
    by (simp add: getVersion_def fetchWithTimeout_def platform_fetch_def aborted_def
        new_NetworkError_def)
  show "0 < headers_at a \<Longrightarrow>
     getVersion (platform_fetch (Answers a)) this (Some 0) = Inl (TimeoutError ''request timeout'')"
    by (simp add: getVersion_def fetchWithTimeout_def platform_fetch_def aborted_def z)
  show "0 < headers_at a' \<Longrightarrow>
     getCardList (platform_fetch (Answers a')) this (Some 0) = Inl (TimeoutError ''request timeout'')"
    by (simp add: getCardList_def fetchWithTimeout_def platform_fetch_def aborted_def z)
qed

text \<open>
  Claim C2. The timed request is to fail with \<open>TimeoutError\<close> whenever the budget ends
  before the response arrives or while the body is read. On a response whose status is not
  200 this is not what \<open>fetchWithTimeout\<close> does: with a budget of 100 ms, a status line 500
  at 10 ms and a body that would be complete at 1000 ms, \<^verbatim>\<open>response.text()\<close> rejects with the
  signal's \<^verbatim>\<open>DOMException\<close>, and that exception leaves \<open>getVersion\<close> as it is, because
  \<^verbatim>\<open>skipCatch\<close> is already set. It is not a \<open>TimeoutError\<close>. The same exchange with status
  200 ends in \<open>TimeoutError\<close>.
\<close>

theorem body_timeout_on_status_500_not_TimeoutError:
  "getVersion
     (platform_fetch (Answers \<lparr> headers_at = 10, status_code = 500, body_at = 1000,
        body_text = ''busy'', body_json = Inl (Error ''SyntaxError'' ''Unexpected token'') \<rparr>))
     default_service (Some 100)
   = (Inl (DOMException ''TimeoutError'' ''The operation was aborted due to timeout'') :: exn + nat) \<and>
   \<not> instanceof_TimeoutError (DOMException ''TimeoutError'' ''The operation was aborted due to timeout'') \<and>
   getVersion
     (platform_fetch (Answers \<lparr> headers_at = 10, status_code = 200, body_at = 1000,
        body_text = ''busy'', body_json = Inl (Error ''SyntaxError'' ''Unexpected token'') \<rparr>))
     default_service (Some 100)
   = (Inl (TimeoutError ''body timeout'') :: exn + nat)"
  by (simp add: getVersion_def fetchWithTimeout_def platform_fetch_def default_service_def
      new_TWNHIICCService_def aborted_def timer_delay_def)

text \<open>
  Claim C5 speaks of success statuses (2xx) on one side and all others on the other. The
  code compares the status with 200 only: a response 201 whose body is valid JSON is an
  error, not a result.
\<close>

theorem status_201_is_an_error:
  "getVersion
     (platform_fetch (Answers \<lparr> headers_at = 3, status_code = 201, body_at = 5, body_text = ''7'',
        body_json = Inr (7::nat) \<rparr>))
     default_service None = Inl (status_error 201 ''7'') \<and>
   getVersion
     (platform_fetch (Answers \<lparr> headers_at = 3, status_code = 201, body_at = 5, body_text = ''7'',
        body_json = Inr (7::nat) \<rparr>))
     default_service None \<noteq> Inr 7"
  by (simp add: getVersion_def fetchWithTimeout_def platform_fetch_def default_service_def
      new_TWNHIICCService_def timer_delay_def)

text \<open>
  Claim C5, amended. For every response received: when the status is exactly 200 and
  \<^verbatim>\<open>response.json()\<close> yields a value, the timed request returns that value, typed as the
  caller's shape; when the status is anything else (other 2xx statuses included) and
  \<^verbatim>\<open>response.text()\<close> yields the body, it fails with the generic error that carries the
  status code and the raw body text; that error is thrown for no response of status 200;
  and it is neither a \<open>NetworkError\<close> nor a \<open>TimeoutError\<close>.
\<close>

theorem fetchWithTimeout_by_status:
  "(status response = 200 \<and> json response = Inr v \<longrightarrow>
      fetchWithTimeout (\<lambda>u sig. Fulfilled response) address config = Inr v) \<and>
   (status response \<noteq> 200 \<and> text' response = Inr body \<longrightarrow>
      fetchWithTimeout (\<lambda>u sig. Fulfilled response) address config
        = Inl (status_error (status response) body)) \<and>
   (fetchWithTimeout (\<lambda>u sig. Fulfilled response) address config
        = Inl (status_error (status response) b) \<longrightarrow> status response \<noteq> 200) \<and>
   \<not> instanceof_NetworkError (status_error (status response) b) \<and>
   \<not> instanceof_TimeoutError (status_error (status response) b)"
  by (auto simp: fetchWithTimeout_def Let_def status_error_def split: option.splits sum.splits)

theorem fetchWithTimeout_by_status_witness:
  "fetchWithTimeout
     (\<lambda>u sig. Fulfilled \<lparr>status = 404, json = Inl (Error ''SyntaxError'' ''Unexpected token''),
        text' = Inr ''Not Found''\<rparr>)
     ''http://127.0.0.1:12345/version'' \<lparr>signal = None, timeout = Some 5000\<rparr>
   = (Inl (status_error 404 ''Not Found'') :: exn + nat)"
  using fetchWithTimeout_by_status
    [where response = "\<lparr>status = 404, json = Inl (Error ''SyntaxError'' ''Unexpected token''),
         text' = Inr ''Not Found''\<rparr> :: nat Response"
       and body = "''Not Found''" and address = "''http://127.0.0.1:12345/version''"
       and config = "\<lparr>signal = None, timeout = Some 5000\<rparr>"]
  by simp

section \<open>The channel: running, opening, reconfiguring\<close>

lemma connectionState_socket_held:
  "(connectionState this = Open \<or> connectionState this = Retrying) = (webSocket this \<noteq> None)"
  by (simp add: connectionState_def split: option.splits)

text \<open>What each function does to the socket the channel holds.\<close>

lemma webSocket_set_stage [simp]: "webSocket (set_stage k st w) = webSocket w"
  by (simp add: set_stage_def)

lemma webSocket_update_socket [simp]: "webSocket (update_socket s f w) = webSocket w"
  by (simp add: update_socket_def)

lemma webSocket_retry_connect [simp]: "webSocket (retry_connect k w) = webSocket w"
  by (simp add: retry_connect_def Let_def)

lemma webSocket_retry_delay [simp]: "webSocket (retry_delay k w) = webSocket w"
  by (simp add: retry_delay_def sleep_def Let_def)

lemma webSocket_retry [simp]: "webSocket (retry s w) = webSocket w"
  by (simp add: retry_def Let_def split: option.splits)

lemma webSocket_openWebSocket [simp]: "webSocket (openWebSocket i w) = webSocket w"
  by (simp add: openWebSocket_def Let_def)

lemma webSocket_closeWebSocket [simp]: "webSocket (closeWebSocket w) = None"
  by (simp add: closeWebSocket_def split: option.splits)

lemma webSocket_setWebSocketInterval [simp]:
  "webSocket (snd (setWebSocketInterval i w)) = webSocket w"
  by (simp add: setWebSocketInterval_def Let_def split: option.splits)

lemma webSocket_opened:
  "webSocket (opened s w) = (if connects (Opened s) w then Some s else webSocket w)"
  by (auto simp: opened_def onopen_fn_def split: option.splits onopen_handler.splits)

lemma webSocket_error_event [simp]: "webSocket (error_event s ev w) = webSocket w"
  by (simp add: error_event_def onerror_fn_def split: option.splits onerror_handler.splits)

lemma webSocket_close_event [simp]: "webSocket (close_event s w) = webSocket w"
  by (simp add: close_event_def onclose_fn_def split: option.splits onclose_handler.splits)

lemma webSocket_failed [simp]: "webSocket (failed s ev w) = webSocket w"
  by (simp add: failed_def)

lemma webSocket_closed_cleanly [simp]: "webSocket (closed_cleanly s w) = webSocket w"
  by (simp add: closed_cleanly_def)

lemma webSocket_message_event [simp]: "webSocket (message_event s d w) = webSocket w"
  by (simp add: message_event_def onmessage_fn_def Let_def
      split: option.splits onmessage_handler.splits prod.splits payload.splits hook.splits)

lemma webSocket_policy_settled:
  "webSocket (policy_settled k w) = (if vetoes (PolicySettled k) w then None else webSocket w)"
  by (auto simp: policy_settled_def retry_resume_def split: stage.splits sum.splits)

lemma webSocket_timer_fired [simp]: "webSocket (timer_fired k w) = webSocket w"
  by (simp add: timer_fired_def split: stage.splits)

lemma spec_step_holds_socket:
  assumes "holds_socket c = (webSocket w \<noteq> None)" and "\<not> (c = Closed \<and> connects e w)"
  shows "holds_socket (spec_step e w c) = (webSocket (step e w) \<noteq> None)"
  using assms
  by (cases e; cases c)
    (auto simp: holds_socket_def spec_step_def webSocket_opened webSocket_policy_settled
      webSocket_openWebSocket webSocket_closeWebSocket webSocket_setWebSocketInterval
      webSocket_failed webSocket_closed_cleanly webSocket_message_event webSocket_timer_fired)

lemma spec_run_holds_socket:
  assumes "holds_socket c = (webSocket w \<noteq> None)" and "no_completion_while_Closed es w c"
  shows "holds_socket (spec_run es w c) = (webSocket (run es w) \<noteq> None)"
  using assms
proof (induction es arbitrary: w c)
  case Nil
  then show ?case by simp
next
  case (Cons e es)
  from Cons.prems have "holds_socket (spec_step e w c) = (webSocket (step e w) \<noteq> None)"
    by (intro spec_step_holds_socket) simp_all
  with Cons.prems Cons.IH [of "spec_step e w c" "step e w"] show ?case by simp
qed

text \<open>
  Claim C3 says \<open>isWebSocketRunning\<close> is true in state \<open>Open\<close> only. After a successful open
  and a drop of the connection, the channel still holds the closed socket while \<^verbatim>\<open>retry\<close>
  sleeps: the state is \<open>Retrying\<close>, along the run and read off the state, and
  \<open>isWebSocketRunning\<close> is true.
\<close>

theorem running_while_Retrying:
  "readyState (sockets (run [Call_openWebSocket None, Opened 0, Failed 0 None] (start default_service)) ! 0)
     = CLOSED \<and>
   stage (retries (run [Call_openWebSocket None, Opened 0, Failed 0 None] (start default_service)) ! 0)
     = Sleeping 1000 \<and>
   spec_run [Call_openWebSocket None, Opened 0, Failed 0 None] (start default_service) Closed
     = Retrying \<and>
   connectionState (run [Call_openWebSocket None, Opened 0, Failed 0 None] (start default_service))
     = Retrying \<and>
   \<not> (isWebSocketRunning (run [Call_openWebSocket None, Opened 0, Failed 0 None] (start default_service))
       \<longleftrightarrow> spec_run [Call_openWebSocket None, Opened 0, Failed 0 None] (start default_service) Closed
            = Open)"
  by code_simp

text \<open>
  Claim C3, amended. On every run from a fresh channel in which no connection completes
  while the state is \<open>Closed\<close>, \<open>isWebSocketRunning\<close> returns true if and only if the
  connection state the run has reached is \<open>Open\<close> or \<open>Retrying\<close>: a socket is held from a
  successful connection on, through a drop and the reconnect attempts, until a close or a
  veto; \<open>isWebSocketRunning\<close> returns false while the state is \<open>Connecting\<close> or \<open>Closed\<close>.
\<close>

theorem isWebSocketRunning_along_run:
  assumes "webSocket service = None"
    and "no_completion_while_Closed es (start service) Closed"
  shows "isWebSocketRunning (run es (start service)) \<longleftrightarrow>
           spec_run es (start service) Closed = Open \<or>
           spec_run es (start service) Closed = Retrying"
proof -
  have "holds_socket Closed = (webSocket (start service) \<noteq> None)"
    using assms(1) by (simp add: holds_socket_def start_def TWNHIICCService.extend_def)
  from spec_run_holds_socket [OF this assms(2)] show ?thesis
    by (simp add: isWebSocketRunning_def holds_socket_def)
qed

theorem isWebSocketRunning_along_run_witness:
  "spec_run [Call_openWebSocket None, Opened 0, Failed 0 None, Tick 1000, TimerFired 0, Failed 1 None]
     (start default_service) Closed = Retrying \<and>
   isWebSocketRunning
     (run [Call_openWebSocket None, Opened 0, Failed 0 None, Tick 1000, TimerFired 0, Failed 1 None]
        (start default_service)) \<and>
   spec_run [Call_openWebSocket None] (start default_service) Closed = Connecting \<and>
   \<not> isWebSocketRunning (run [Call_openWebSocket None] (start default_service)) \<and>
   spec_run [Call_openWebSocket None, Opened 0, Failed 0 None, Call_closeWebSocket]
     (start default_service) Closed = Closed \<and>
   \<not> isWebSocketRunning
     (run [Call_openWebSocket None, Opened 0, Failed 0 None, Call_closeWebSocket]
        (start default_service))"
proof -
  have s: "webSocket default_service = None"
    by (simp add: default_service_def new_TWNHIICCService_def)
  have o1: "no_completion_while_Closed
     [Call_openWebSocket None, Opened 0, Failed 0 None, Tick 1000, TimerFired 0, Failed 1 None]
     (start default_service) Closed"
    and o2: "no_completion_while_Closed [Call_openWebSocket None] (start default_service) Closed"
    and o3: "no_completion_while_Closed
     [Call_openWebSocket None, Opened 0, Failed 0 None, Call_closeWebSocket]
     (start default_service) Closed"
    by code_simp+
  have a1: "spec_run
     [Call_openWebSocket None, Opened 0, Failed 0 None, Tick 1000, TimerFired 0, Failed 1 None]
     (start default_service) Closed = Retrying"
    and a2: "spec_run [Call_openWebSocket None] (start default_service) Closed = Connecting"
    and a3: "spec_run [Call_openWebSocket None, Opened 0, Failed 0 None, Call_closeWebSocket]
     (start default_service) Closed = Closed"
    by code_simp+
  from isWebSocketRunning_along_run [OF s o1] a1
  have b1: "isWebSocketRunning
     (run [Call_openWebSocket None, Opened 0, Failed 0 None, Tick 1000, TimerFired 0, Failed 1 None]
        (start default_service))"
    by blast
  from isWebSocketRunning_along_run [OF s o2]
  have b2: "\<not> isWebSocketRunning (run [Call_openWebSocket None] (start default_service))"
    unfolding a2 by blast
  from isWebSocketRunning_along_run [OF s o3]
  have b3: "\<not> isWebSocketRunning
     (run [Call_openWebSocket None, Opened 0, Failed 0 None, Call_closeWebSocket]
        (start default_service))"
    unfolding a3 by blast
  from a1 a2 a3 b1 b2 b3 show ?thesis by blast
qed

text \<open>
  Claim C6 says a call of \<open>openWebSocket\<close> while the channel is \<open>Connecting\<close> is a no-op.
  While the first attempt is under way the channel holds no socket, and the guard of
  \<open>openWebSocket\<close> looks at nothing else: a second call constructs a second socket, and two
  sockets are connecting.
\<close>

theorem second_open_while_Connecting:
  "connectionState (run [Call_openWebSocket None] (start default_service)) = Connecting \<and>
   openWebSocket None (run [Call_openWebSocket None] (start default_service))
     \<noteq> run [Call_openWebSocket None] (start default_service) \<and>
   length (sockets (run [Call_openWebSocket None] (start default_service))) = 1 \<and>
   length (sockets (run [Call_openWebSocket None, Call_openWebSocket None] (start default_service))) = 2 \<and>
   readyState (sockets (run [Call_openWebSocket None, Call_openWebSocket None] (start default_service)) ! 0)
     = CONNECTING \<and>
   readyState (sockets (run [Call_openWebSocket None, Call_openWebSocket None] (start default_service)) ! 1)
     = CONNECTING"
  by code_simp

text \<open>
  Claim C6, amended. A call of \<open>openWebSocket\<close> while the channel holds a socket (state
  \<open>Open\<close>, or \<open>Retrying\<close> after a drop) is a no-op: no socket is constructed and nothing
  changes. While the channel holds none (state \<open>Closed\<close>, or \<open>Connecting\<close> during the first
  attempt) the call is not a no-op: it constructs one more socket, which is connecting.
\<close>

theorem openWebSocket_noop_iff_socket_held:
  "((connectionState this = Open \<or> connectionState this = Retrying) \<longrightarrow>
      openWebSocket interval this = this) \<and>
   ((connectionState this = Closed \<or> connectionState this = Connecting) \<longrightarrow>
      openWebSocket interval this \<noteq> this \<and>
      length (sockets (openWebSocket interval this)) = Suc (length (sockets this)) \<and>
      readyState (last (sockets (openWebSocket interval this))) = CONNECTING)"
proof (intro conjI impI)
  assume "connectionState this = Open \<or> connectionState this = Retrying"
  then have "webSocket this \<noteq> None" by (simp add: connectionState_socket_held)
  then show "openWebSocket interval this = this" by (simp add: openWebSocket_def)
next
  assume "connectionState this = Closed \<or> connectionState this = Connecting"
  then have n: "webSocket this = None"
    using connectionState_socket_held [of this] by auto
  then show l: "length (sockets (openWebSocket interval this)) = Suc (length (sockets this))"
    by (simp add: openWebSocket_def Let_def)
  then show "openWebSocket interval this \<noteq> this" by auto
  from n show "readyState (last (sockets (openWebSocket interval this))) = CONNECTING"
    by (simp add: openWebSocket_def Let_def new_WebSocket_def)
qed

theorem openWebSocket_noop_iff_socket_held_witness:
  "connectionState (run [Call_openWebSocket None, Opened 0, Failed 0 None] (start default_service))
     = Retrying \<and>
   openWebSocket (Some (Finite 7))
     (run [Call_openWebSocket None, Opened 0, Failed 0 None] (start default_service))
     = run [Call_openWebSocket None, Opened 0, Failed 0 None] (start default_service) \<and>
   length (sockets (openWebSocket None (start default_service))) = Suc (length (sockets (start default_service)))"
proof -
  have a: "connectionState (run [Call_openWebSocket None, Opened 0, Failed 0 None] (start default_service))
     = Retrying"
    by code_simp
  have b: "connectionState (start default_service) = Closed"
    by code_simp
  from a openWebSocket_noop_iff_socket_held
    [of "run [Call_openWebSocket None, Opened 0, Failed 0 None] (start default_service)"
        "Some (Finite 7)"]
  have c: "openWebSocket (Some (Finite 7))
     (run [Call_openWebSocket None, Opened 0, Failed 0 None] (start default_service))
     = run [Call_openWebSocket None, Opened 0, Failed 0 None] (start default_service)"
    by blast
  from b openWebSocket_noop_iff_socket_held [of "start default_service" None]
  have d: "length (sockets (openWebSocket None (start default_service)))
     = Suc (length (sockets (start default_service)))"
    by blast
  from a c d show ?thesis by blast
qed

text \<open>
  Claim C10. When the channel holds no socket, \<open>setWebSocketInterval\<close> returns false for
  every argument, \<^verbatim>\<open>undefined\<close> included, and leaves the whole state as it is: nothing is
  sent and the stored interval is kept. When the channel holds a socket,
  \<open>setWebSocketInterval\<close> of \<^verbatim>\<open>undefined\<close> also returns false, but clears the stored interval.
\<close>

theorem setWebSocketInterval_without_socket:
  "(webSocket this = None \<longrightarrow> setWebSocketInterval x this = (False, this)) \<and>
   (webSocket this \<noteq> None \<longrightarrow>
      setWebSocketInterval None this = (False, this\<lparr>webSocketInterval := None\<rparr>))"
  by (auto simp: setWebSocketInterval_def)

theorem setWebSocketInterval_without_socket_witness:
  "webSocket (run [Call_openWebSocket (Some (Finite 5)), Opened 0, Call_closeWebSocket]
     (start default_service)) = None \<and>
   webSocketInterval (run [Call_openWebSocket (Some (Finite 5)), Opened 0, Call_closeWebSocket]
     (start default_service)) = Some (Finite 5) \<and>
   setWebSocketInterval None
     (run [Call_openWebSocket (Some (Finite 5)), Opened 0, Call_closeWebSocket] (start default_service))
     = (False,
        run [Call_openWebSocket (Some (Finite 5)), Opened 0, Call_closeWebSocket] (start default_service)) \<and>
   setWebSocketInterval (Some (Finite 9))
     (run [Call_openWebSocket (Some (Finite 5)), Opened 0, Call_closeWebSocket] (start default_service))
     = (False,
        run [Call_openWebSocket (Some (Finite 5)), Opened 0, Call_closeWebSocket] (start default_service))"
proof -
  have a: "webSocket (run [Call_openWebSocket (Some (Finite 5)), Opened 0, Call_closeWebSocket]
     (start default_service)) = None"
    by code_simp
  have b: "webSocketInterval (run [Call_openWebSocket (Some (Finite 5)), Opened 0, Call_closeWebSocket]
     (start default_service)) = Some (Finite 5)"
    by code_simp
  from a setWebSocketInterval_without_socket
    [of "run [Call_openWebSocket (Some (Finite 5)), Opened 0, Call_closeWebSocket] (start default_service)"]
  have c: "\<And>x. setWebSocketInterval x
     (run [Call_openWebSocket (Some (Finite 5)), Opened 0, Call_closeWebSocket] (start default_service))
     = (False,
        run [Call_openWebSocket (Some (Finite 5)), Opened 0, Call_closeWebSocket] (start default_service))"
    by blast
  from a b c [of None] c [of "Some (Finite 9)"] show ?thesis by blast
qed

section \<open>The channel: closing and the update hook\<close>

text \<open>
  Claim C1. After \<open>closeWebSocket\<close> a reconnect attempt that was under way is to be
  discarded. Here the connection drops, \<^verbatim>\<open>retry\<close> waits its second and constructs socket 1,
  and the caller closes the channel while socket 1 is connecting: \<open>isWebSocketRunning\<close> is
  false. Then socket 1 opens. Its \<^verbatim>\<open>onopen\<close> does not look at \<^verbatim>\<open>this.webSocket\<close> before it
  assigns it: the channel holds socket 1, \<open>isWebSocketRunning\<close> is true again and the state
  is \<open>Open\<close>.
\<close>

theorem reconnect_completes_after_close:
  "\<not> isWebSocketRunning
       (run [Call_openWebSocket None, Opened 0, Failed 0 None, Tick 1000, TimerFired 0,
             Call_closeWebSocket] (start default_service)) \<and>
   isWebSocketRunning
       (run [Call_openWebSocket None, Opened 0, Failed 0 None, Tick 1000, TimerFired 0,
             Call_closeWebSocket, Tick 40, Opened 1] (start default_service)) \<and>
   webSocket
       (run [Call_openWebSocket None, Opened 0, Failed 0 None, Tick 1000, TimerFired 0,
             Call_closeWebSocket, Tick 40, Opened 1] (start default_service)) = Some 1 \<and>
   connectionState
       (run [Call_openWebSocket None, Opened 0, Failed 0 None, Tick 1000, TimerFired 0,
             Call_closeWebSocket, Tick 40, Opened 1] (start default_service)) = Open"
  by code_simp

text \<open>
  The message handler changes neither the socket the channel holds, nor the stored
  interval, nor any socket, nor any invocation of \<^verbatim>\<open>retry\<close>, whatever the hook does; and a
  rejection of the promise the hook returned is logged and does not leave the handler.
\<close>

lemma onmessage_fn_frame:
  "webSocket (snd (onmessage_fn d w)) = webSocket w \<and>
   webSocketInterval (snd (onmessage_fn d w)) = webSocketInterval w \<and>
   sockets (snd (onmessage_fn d w)) = sockets w \<and>
   retries (snd (onmessage_fn d w)) = retries w"
  by (simp add: onmessage_fn_def Let_def split: option.splits payload.splits hook.splits)

lemma onmessage_fn_rejection_logged:
  "onWebSocketUpdate w = Some (RejectsWith e) \<Longrightarrow>
   fst (onmessage_fn (Cards cs) w) = None \<and>
   console (snd (onmessage_fn (Cards cs) w)) = console w @ [console_error e]"
  by (simp add: onmessage_fn_def Let_def)

text \<open>
  Claim C4. An exception the update hook throws is to be caught and logged and is never to
  leave the message handler. The handler calls the hook outside any \<^verbatim>\<open>try\<close>: when the hook
  throws, the exception leaves the handler and nothing is logged.
\<close>

theorem update_hook_throw_leaves_handler:
  "fst (onmessage_fn (Cards [])
     (run [Set_onWebSocketUpdate (Some (Throws (Error ''Error'' ''boom''))), Call_openWebSocket None,
           Opened 0] (start default_service)))
     = Some (Error ''Error'' ''boom'') \<and>
   console (snd (onmessage_fn (Cards [])
     (run [Set_onWebSocketUpdate (Some (Throws (Error ''Error'' ''boom''))), Call_openWebSocket None,
           Opened 0] (start default_service)))) = [] \<and>
   uncaught
     (run [Set_onWebSocketUpdate (Some (Throws (Error ''Error'' ''boom''))), Call_openWebSocket None,
           Opened 0, Message 0 (Cards [])] (start default_service))
     = [Error ''Error'' ''boom''] \<and>
   console
     (run [Set_onWebSocketUpdate (Some (Throws (Error ''Error'' ''boom''))), Call_openWebSocket None,
           Opened 0, Message 0 (Cards [])] (start default_service))
     = []"
  by code_simp

section \<open>The reconnect sequence\<close>

subsection \<open>Every event keeps the timing invariant\<close>

lemma timing_ok_fields [simp]:
  "timing_ok (w\<lparr>webSocket := a\<rparr>) = timing_ok w"
  "timing_ok (w\<lparr>webSocketInterval := b\<rparr>) = timing_ok w"
  "timing_ok (w\<lparr>onWebSocketRetry := c\<rparr>) = timing_ok w"
  "timing_ok (w\<lparr>onWebSocketUpdate := d\<rparr>) = timing_ok w"
  "timing_ok (w\<lparr>opens := e\<rparr>) = timing_ok w"
  "timing_ok (w\<lparr>console := f\<rparr>) = timing_ok w"
  "timing_ok (w\<lparr>uncaught := g\<rparr>) = timing_ok w"
  "timing_ok (w\<lparr>updates := h\<rparr>) = timing_ok w"
  by (simp_all add: timing_ok_def)

lemma timing_ok_update_socket:
  assumes "timing_ok w"
    and "\<And>ws. constructed_at (f ws) = constructed_at ws"
    and "\<And>ws. constructed_by (f ws) = constructed_by ws"
  shows "timing_ok (update_socket s f w)"
  using assms by (auto simp: timing_ok_def update_socket_def nth_list_update)

lemma timing_ok_set_stage:
  assumes "timing_ok w"
    and "\<And>wake. st = Sleeping wake \<Longrightarrow> wake = t (retries w ! k) + 1000"
  shows "timing_ok (set_stage k st w)"
  using assms by (auto simp: timing_ok_def set_stage_def nth_list_update)

lemma timing_ok_retry_connect:
  assumes "timing_ok w" and "k < length (retries w)" and "t (retries w ! k) + 1000 \<le> now w"
  shows "timing_ok (retry_connect k w)"
  using assms
  by (auto simp: timing_ok_def retry_connect_def set_stage_def Let_def new_WebSocket_def
      nth_list_update nth_append)

lemma timing_ok_retry_delay:
  assumes "timing_ok w" and "k < length (retries w)"
  shows "timing_ok (retry_delay k w)"
proof (cases "int (now w) - int (t (retries w ! k)) < RETRY_INTERVAL")
  case True
  then have "timing_ok (sleep k (RETRY_INTERVAL - (int (now w) - int (t (retries w ! k)))) w)"
    unfolding sleep_def using assms
    by (intro timing_ok_set_stage) (auto simp: RETRY_INTERVAL_def timing_ok_def)
  with True show ?thesis by (simp add: retry_delay_def Let_def)
next
  case False
  then have "t (retries w ! k) + 1000 \<le> now w" by (simp add: RETRY_INTERVAL_def)
  with assms False show ?thesis
    by (simp add: retry_delay_def Let_def timing_ok_retry_connect)
qed


lemma update_socket_frame [simp]:
  "length (sockets (update_socket s f w)) = length (sockets w)"
  "retries (update_socket s f w) = retries w"
  "now (update_socket s f w) = now w"
  "webSocket (update_socket s f w) = webSocket w"
  "onWebSocketRetry (update_socket s f w) = onWebSocketRetry w"
  by (simp_all add: update_socket_def)

lemma set_stage_frame [simp]:
  "sockets (set_stage k st w) = sockets w"
  "length (retries (set_stage k st w)) = length (retries w)"
  "now (set_stage k st w) = now w"
  "webSocket (set_stage k st w) = webSocket w"
  by (simp_all add: set_stage_def)

lemma timing_ok_retry:
  assumes "timing_ok w" and "s < length (sockets w)"
  shows "timing_ok (retry s w)"
proof -
  let ?w = "w\<lparr>retries := retries w @ [\<lparr>t = now w, stage = Returned, caused_by = s\<rparr>]\<rparr>"
  have ok: "timing_ok ?w"
    using assms by (auto simp: timing_ok_def nth_append)
  have k: "length (retries w) < length (retries ?w)" by simp
  show ?thesis
  proof (cases "onWebSocketRetry w")
    case None
    then show ?thesis
      using timing_ok_retry_delay [OF ok k] by (simp add: retry_def Let_def)
  next
    case (Some h)
    then show ?thesis
      using timing_ok_set_stage [OF ok, of "AwaitingPolicy h" "length (retries w)"]
      by (simp add: retry_def Let_def)
  qed
qed

lemma timing_ok_retry_resume:
  assumes "timing_ok w" and "k < length (retries w)"
  shows "timing_ok (retry_resume k h w)"
proof (cases "await h")
  case (Inl e)
  have "timing_ok (retry_delay k (w\<lparr>console := console w @ [console_error e]\<rparr>))"
    using assms by (intro timing_ok_retry_delay) simp_all
  with Inl show ?thesis by (simp add: retry_resume_def)
next
  case (Inr v)
  show ?thesis
  proof (cases "v = JSBool False")
    case True
    have "timing_ok (set_stage k Returned (w\<lparr>webSocket := None\<rparr>))"
      using assms by (intro timing_ok_set_stage) simp_all
    with Inr True show ?thesis by (simp add: retry_resume_def)
  next
    case False
    with Inr assms show ?thesis by (simp add: retry_resume_def timing_ok_retry_delay)
  qed
qed

lemma timing_ok_onclose_fn:
  "timing_ok w \<Longrightarrow> s < length (sockets w) \<Longrightarrow> timing_ok (onclose_fn s w)"
  by (simp add: onclose_fn_def timing_ok_retry)

lemma timing_ok_close_event:
  "timing_ok w \<Longrightarrow> s < length (sockets w) \<Longrightarrow> timing_ok (close_event s w)"
  by (simp add: close_event_def timing_ok_onclose_fn split: option.splits onclose_handler.splits)

lemma timing_ok_onerror_fn:
  "timing_ok w \<Longrightarrow> s < length (sockets w) \<Longrightarrow> timing_ok (onerror_fn h s ev w)"
  by (cases h) (simp_all add: onerror_fn_def timing_ok_retry split: option.splits)

lemma timing_ok_error_event:
  "timing_ok w \<Longrightarrow> s < length (sockets w) \<Longrightarrow> timing_ok (error_event s ev w)"
  by (simp add: error_event_def timing_ok_onerror_fn split: option.splits)

lemma retry_delay_length_sockets:
  "length (sockets w) \<le> length (sockets (retry_delay k w))"
  by (simp add: retry_delay_def retry_connect_def sleep_def Let_def)

lemma retry_length_sockets:
  "length (sockets w) \<le> length (sockets (retry s w))"
  using retry_delay_length_sockets
    [of "w\<lparr>retries := retries w @ [\<lparr>t = now w, stage = Returned, caused_by = s\<rparr>]\<rparr>" "length (retries w)"]
  by (simp add: retry_def Let_def split: option.splits)

lemma error_event_length_sockets:
  "length (sockets w) \<le> length (sockets (error_event s ev w))"
  using retry_length_sockets [of w s]
  by (simp add: error_event_def onerror_fn_def split: option.splits onerror_handler.splits)

lemma set_readyState_ghost [simp]:
  "constructed_at (set_readyState r ws) = constructed_at ws"
  "constructed_by (set_readyState r ws) = constructed_by ws"
  by (simp_all add: set_readyState_def)

lemma install_handlers_ghost [simp]:
  "constructed_at (install_handlers ws) = constructed_at ws"
  "constructed_by (install_handlers ws) = constructed_by ws"
  by (simp_all add: install_handlers_def)

lemma WebSocket_close_ghost [simp]:
  "constructed_at (WebSocket_close c ws) = constructed_at ws"
  "constructed_by (WebSocket_close c ws) = constructed_by ws"
  by (simp_all add: WebSocket_close_def)

lemma WebSocket_send_ghost [simp]:
  "constructed_at (WebSocket_send x ws) = constructed_at ws"
  "constructed_by (WebSocket_send x ws) = constructed_by ws"
  by (simp_all add: WebSocket_send_def)

lemma timing_ok_opened: "timing_ok w \<Longrightarrow> timing_ok (opened s w)"
  by (simp add: opened_def onopen_fn_def timing_ok_update_socket
      split: option.splits onopen_handler.splits)

lemma timing_ok_failed: "timing_ok w \<Longrightarrow> timing_ok (failed s ev w)"
proof -
  assume ok: "timing_ok w"
  show ?thesis
  proof (cases "s < length (sockets w) \<and> readyState (sockets w ! s) \<noteq> CLOSED")
    case False
    with ok show ?thesis by (auto simp: failed_def)
  next
    case True
    let ?w1 = "update_socket s (set_readyState CLOSED) w"
    have ok1: "timing_ok ?w1" using ok by (simp add: timing_ok_update_socket)
    have s1: "s < length (sockets ?w1)" using True by simp
    have ok2: "timing_ok (error_event s ev ?w1)" using ok1 s1 by (rule timing_ok_error_event)
    have s2: "s < length (sockets (error_event s ev ?w1))"
      using s1 error_event_length_sockets [of ?w1 s ev] by linarith
    from ok2 s2 have "timing_ok (close_event s (error_event s ev ?w1))"
      by (rule timing_ok_close_event)
    with True show ?thesis by (simp add: failed_def)
  qed
qed

lemma timing_ok_closed_cleanly: "timing_ok w \<Longrightarrow> timing_ok (closed_cleanly s w)"
  by (simp add: closed_cleanly_def timing_ok_close_event timing_ok_update_socket)

lemma timing_ok_message_event: "timing_ok w \<Longrightarrow> timing_ok (message_event s d w)"
  by (auto simp: message_event_def onmessage_fn_def Let_def
      split: option.splits onmessage_handler.splits prod.splits payload.splits hook.splits)

lemma timing_ok_policy_settled: "timing_ok w \<Longrightarrow> timing_ok (policy_settled k w)"
  by (simp add: policy_settled_def timing_ok_retry_resume split: stage.splits)

lemma timing_ok_timer_fired: "timing_ok w \<Longrightarrow> timing_ok (timer_fired k w)"
proof -
  assume ok: "timing_ok w"
  show ?thesis
  proof (cases "k < length (retries w)")
    case False
    with ok show ?thesis by (simp add: timer_fired_def)
  next
    case True
    show ?thesis
    proof (cases "stage (retries w ! k)")
      case (Sleeping wake)
      show ?thesis
      proof (cases "wake \<le> now w")
        case le: True
        from ok True Sleeping have "wake = t (retries w ! k) + 1000"
          by (simp add: timing_ok_def)
        with le have "t (retries w ! k) + 1000 \<le> now w" by linarith
        with ok True have "timing_ok (retry_connect k w)" by (rule timing_ok_retry_connect)
        with True Sleeping le show ?thesis by (simp add: timer_fired_def)
      next
        case False
        with ok True Sleeping show ?thesis by (simp add: timer_fired_def)
      qed
    qed (use ok True in \<open>simp_all add: timer_fired_def\<close>)
  qed
qed

lemma timing_ok_openWebSocket: "timing_ok w \<Longrightarrow> timing_ok (openWebSocket i w)"
  by (auto simp: openWebSocket_def Let_def timing_ok_def new_WebSocket_def nth_append)

lemma timing_ok_closeWebSocket: "timing_ok w \<Longrightarrow> timing_ok (closeWebSocket w)"
  by (simp add: closeWebSocket_def timing_ok_update_socket split: option.splits)

lemma timing_ok_setWebSocketInterval: "timing_ok w \<Longrightarrow> timing_ok (snd (setWebSocketInterval i w))"
  by (simp add: setWebSocketInterval_def Let_def timing_ok_update_socket split: option.splits)

lemma timing_ok_tick: "timing_ok w \<Longrightarrow> timing_ok (w\<lparr>now := now w + ms\<rparr>)"
  by (fastforce simp: timing_ok_def)

lemma timing_ok_step: "timing_ok w \<Longrightarrow> timing_ok (step e w)"
  by (cases e)
    (simp_all add: timing_ok_openWebSocket timing_ok_closeWebSocket timing_ok_setWebSocketInterval
      timing_ok_opened timing_ok_failed timing_ok_closed_cleanly timing_ok_message_event
      timing_ok_policy_settled timing_ok_timer_fired timing_ok_tick)

lemma timing_ok_run: "timing_ok w \<Longrightarrow> timing_ok (run es w)"
  by (induction es arbitrary: w) (simp_all add: timing_ok_step)

lemma timing_ok_start: "timing_ok (start service)"
  by (simp add: timing_ok_def start_def TWNHIICCService.extend_def)

subsection \<open>What \<^verbatim>\<open>retry\<close> does after the hook has settled\<close>

lemma retry_delay_remainder:
  assumes "t (retries w ! k) \<le> now w" and "k < length (retries w)"
  shows "(now w < t (retries w ! k) + 1000 \<longrightarrow>
            stage (retries (retry_delay k w) ! k) = Sleeping (t (retries w ! k) + 1000) \<and>
            sockets (retry_delay k w) = sockets w) \<and>
         (t (retries w ! k) + 1000 \<le> now w \<longrightarrow> retry_delay k w = retry_connect k w)"
  using assms
  by (auto simp: retry_delay_def sleep_def set_stage_def Let_def RETRY_INTERVAL_def)

lemma retry_connect_at_once:
  assumes "k < length (retries w)"
  shows "stage (retries (retry_connect k w) ! k) = Returned \<and>
         (webSocket w \<noteq> None \<longrightarrow>
            length (sockets (retry_connect k w)) = Suc (length (sockets w)) \<and>
            constructed_at (last (sockets (retry_connect k w))) = now w \<and>
            constructed_by (last (sockets (retry_connect k w))) = Some k \<and>
            readyState (last (sockets (retry_connect k w))) = CONNECTING) \<and>
         (webSocket w = None \<longrightarrow> sockets (retry_connect k w) = sockets w)"
  using assms
  by (auto simp: retry_connect_def set_stage_def Let_def new_WebSocket_def)


lemma proceed_effect:
  assumes "k < length (retries w)" and "stage (retries w ! k) = AwaitingPolicy h"
    and "await h \<noteq> Inr (JSBool False)"
  shows "step (PolicySettled k) w = retry_delay k w \<or>
         (\<exists>e. await h = Inl e \<and>
              step (PolicySettled k) w = retry_delay k (w\<lparr>console := console w @ [console_error e]\<rparr>))"
  using assms by (cases "await h") (simp_all add: policy_settled_def retry_resume_def)



lemma retry_proceeds:
  assumes "k < length (retries w)" and "stage (retries w ! k) = AwaitingPolicy h"
    and "await h \<noteq> Inr (JSBool False)" and "t (retries w ! k) \<le> now w"
  shows "webSocket (step (PolicySettled k) w) = webSocket w \<and>
         (now w < t (retries w ! k) + 1000 \<longrightarrow>
            stage (retries (step (PolicySettled k) w) ! k) = Sleeping (t (retries w ! k) + 1000) \<and>
            sockets (step (PolicySettled k) w) = sockets w) \<and>
         (t (retries w ! k) + 1000 \<le> now w \<longrightarrow>
            stage (retries (step (PolicySettled k) w) ! k) = Returned \<and>
            (webSocket w \<noteq> None \<longrightarrow>
               length (sockets (step (PolicySettled k) w)) = Suc (length (sockets w)) \<and>
               constructed_at (last (sockets (step (PolicySettled k) w))) = now w \<and>
               constructed_by (last (sockets (step (PolicySettled k) w))) = Some k \<and>
               readyState (last (sockets (step (PolicySettled k) w))) = CONNECTING))"
proof -
  from proceed_effect [OF assms(1-3)]
  obtain w0 where s: "step (PolicySettled k) w = retry_delay k w0"
    and f: "retries w0 = retries w" "now w0 = now w" "sockets w0 = sockets w"
      "webSocket w0 = webSocket w"
    by (cases "step (PolicySettled k) w = retry_delay k w") auto
  from assms f have a: "t (retries w0 ! k) \<le> now w0" "k < length (retries w0)"
    by simp_all
  from retry_delay_remainder [OF a] retry_connect_at_once [OF a(2)] f s
  show ?thesis
    by (auto simp: webSocket_retry_delay webSocket_retry_connect)
qed

subsection \<open>Every event keeps the handlers in place\<close>

lemma handlers_ok_fields [simp]:
  "handlers_ok (w\<lparr>webSocketInterval := b\<rparr>) = handlers_ok w"
  "handlers_ok (w\<lparr>onWebSocketRetry := c\<rparr>) = handlers_ok w"
  "handlers_ok (w\<lparr>onWebSocketUpdate := d\<rparr>) = handlers_ok w"
  "handlers_ok (w\<lparr>opens := e\<rparr>) = handlers_ok w"
  "handlers_ok (w\<lparr>console := f\<rparr>) = handlers_ok w"
  "handlers_ok (w\<lparr>uncaught := g\<rparr>) = handlers_ok w"
  "handlers_ok (w\<lparr>updates := h\<rparr>) = handlers_ok w"
  "handlers_ok (w\<lparr>now := n\<rparr>) = handlers_ok w"
  "handlers_ok (w\<lparr>retries := r\<rparr>) = handlers_ok w"
  by (simp_all add: handlers_ok_def)

lemma handlers_ok_set_stage [simp]: "handlers_ok (set_stage k st w) = handlers_ok w"
  by (simp add: set_stage_def)























subsection \<open>The retry hook\<close>








subsection \<open>The spacing of reconnect attempts\<close>

text \<open>
  Claim C8. In every state \<open>W\<close> a run reaches:
  \<^item> a socket that an invocation of \<^verbatim>\<open>retry\<close> constructed was constructed at least 1000 ms
    after that invocation started, and the invocation started no earlier than the
    construction of the socket whose failure or drop invoked it; so the start of a
    reconnect attempt and the start of the next one in the sequence are at least 1000 ms
    apart, however quickly the remote host rejects the attempt, and so are the starts of the
    two invocations of \<^verbatim>\<open>retry\<close>;
  \<^item> an invocation that sleeps, sleeps until exactly 1000 ms after its recorded start;
  \<^item> when the hook has settled without a veto less than 1000 ms after the start, the
    invocation sleeps for the remainder and constructs nothing yet; when 1000 ms or more
    have passed it does not sleep, and constructs the next socket at that very moment if
    the channel holds a socket;
  \<^item> a sleep does not end before its time, and when it ends the next socket is constructed
    at that very moment if the channel holds a socket.
\<close>

theorem reconnect_attempts_spaced:
  assumes "W = run es (start service)"
  shows
    "(\<forall>j k. j < length (sockets W) \<and> constructed_by (sockets W ! j) = Some k \<longrightarrow>
        k < length (retries W) \<and>
        caused_by (retries W ! k) < length (sockets W) \<and>
        constructed_at (sockets W ! caused_by (retries W ! k)) \<le> t (retries W ! k) \<and>
        t (retries W ! k) + nat RETRY_INTERVAL \<le> constructed_at (sockets W ! j) \<and>
        constructed_at (sockets W ! caused_by (retries W ! k)) + nat RETRY_INTERVAL
          \<le> constructed_at (sockets W ! j) \<and>
        (\<forall>k' < length (retries W).
           caused_by (retries W ! k') = j \<longrightarrow>
           t (retries W ! k) + nat RETRY_INTERVAL \<le> t (retries W ! k'))) \<and>
     (\<forall>k < length (retries W).
        t (retries W ! k) \<le> now W \<and>
        (\<forall>wake. stage (retries W ! k) = Sleeping wake \<longrightarrow>
           wake = t (retries W ! k) + nat RETRY_INTERVAL)) \<and>
     (\<forall>k h. k < length (retries W) \<and> stage (retries W ! k) = AwaitingPolicy h \<and>
        await h \<noteq> Inr (JSBool False) \<longrightarrow>
        (now W < t (retries W ! k) + nat RETRY_INTERVAL \<longrightarrow>
           stage (retries (step (PolicySettled k) W) ! k)
             = Sleeping (t (retries W ! k) + nat RETRY_INTERVAL) \<and>
           sockets (step (PolicySettled k) W) = sockets W) \<and>
        (t (retries W ! k) + nat RETRY_INTERVAL \<le> now W \<longrightarrow>
           stage (retries (step (PolicySettled k) W) ! k) = Returned \<and>
           (webSocket W \<noteq> None \<longrightarrow>
              length (sockets (step (PolicySettled k) W)) = Suc (length (sockets W)) \<and>
              constructed_at (last (sockets (step (PolicySettled k) W))) = now W \<and>
              constructed_by (last (sockets (step (PolicySettled k) W))) = Some k))) \<and>
     (\<forall>k wake. k < length (retries W) \<and> stage (retries W ! k) = Sleeping wake \<longrightarrow>
        (now W < wake \<longrightarrow> step (TimerFired k) W = W) \<and>
        (wake \<le> now W \<longrightarrow>
           stage (retries (step (TimerFired k) W) ! k) = Returned \<and>
           (webSocket W \<noteq> None \<longrightarrow>
              length (sockets (step (TimerFired k) W)) = Suc (length (sockets W)) \<and>
              constructed_at (last (sockets (step (TimerFired k) W))) = now W \<and>
              constructed_by (last (sockets (step (TimerFired k) W))) = Some k)))"
proof -
  have tm: "timing_ok W"
    unfolding assms by (intro timing_ok_run timing_ok_start)
  have ri: "nat RETRY_INTERVAL = 1000"
    by (simp add: RETRY_INTERVAL_def)
  have spacing: "\<forall>j k. j < length (sockets W) \<and> constructed_by (sockets W ! j) = Some k \<longrightarrow>
        k < length (retries W) \<and>
        caused_by (retries W ! k) < length (sockets W) \<and>
        constructed_at (sockets W ! caused_by (retries W ! k)) \<le> t (retries W ! k) \<and>
        t (retries W ! k) + nat RETRY_INTERVAL \<le> constructed_at (sockets W ! j) \<and>
        constructed_at (sockets W ! caused_by (retries W ! k)) + nat RETRY_INTERVAL
          \<le> constructed_at (sockets W ! j) \<and>
        (\<forall>k' < length (retries W).
           caused_by (retries W ! k') = j \<longrightarrow>
           t (retries W ! k) + nat RETRY_INTERVAL \<le> t (retries W ! k'))"
    using tm unfolding ri by (fastforce simp: timing_ok_def)
  have exact: "\<forall>k < length (retries W).
        t (retries W ! k) \<le> now W \<and>
        (\<forall>wake. stage (retries W ! k) = Sleeping wake \<longrightarrow>
           wake = t (retries W ! k) + nat RETRY_INTERVAL)"
    using tm unfolding ri by (simp add: timing_ok_def)
  have settle: "\<forall>k h. k < length (retries W) \<and> stage (retries W ! k) = AwaitingPolicy h \<and>
        await h \<noteq> Inr (JSBool False) \<longrightarrow>
        (now W < t (retries W ! k) + nat RETRY_INTERVAL \<longrightarrow>
           stage (retries (step (PolicySettled k) W) ! k)
             = Sleeping (t (retries W ! k) + nat RETRY_INTERVAL) \<and>
           sockets (step (PolicySettled k) W) = sockets W) \<and>
        (t (retries W ! k) + nat RETRY_INTERVAL \<le> now W \<longrightarrow>
           stage (retries (step (PolicySettled k) W) ! k) = Returned \<and>
           (webSocket W \<noteq> None \<longrightarrow>
              length (sockets (step (PolicySettled k) W)) = Suc (length (sockets W)) \<and>
              constructed_at (last (sockets (step (PolicySettled k) W))) = now W \<and>
              constructed_by (last (sockets (step (PolicySettled k) W))) = Some k))"
  proof (intro allI impI)
    fix k h
    assume a: "k < length (retries W) \<and> stage (retries W ! k) = AwaitingPolicy h \<and>
        await h \<noteq> Inr (JSBool False)"
    with tm have le: "t (retries W ! k) \<le> now W"
      by (simp add: timing_ok_def)
    from a le retry_proceeds [of k W h]
    show "(now W < t (retries W ! k) + nat RETRY_INTERVAL \<longrightarrow>
           stage (retries (step (PolicySettled k) W) ! k)
             = Sleeping (t (retries W ! k) + nat RETRY_INTERVAL) \<and>
           sockets (step (PolicySettled k) W) = sockets W) \<and>
        (t (retries W ! k) + nat RETRY_INTERVAL \<le> now W \<longrightarrow>
           stage (retries (step (PolicySettled k) W) ! k) = Returned \<and>
           (webSocket W \<noteq> None \<longrightarrow>
              length (sockets (step (PolicySettled k) W)) = Suc (length (sockets W)) \<and>
              constructed_at (last (sockets (step (PolicySettled k) W))) = now W \<and>
              constructed_by (last (sockets (step (PolicySettled k) W))) = Some k))"
      unfolding ri by blast
  qed
  have timer: "\<forall>k wake. k < length (retries W) \<and> stage (retries W ! k) = Sleeping wake \<longrightarrow>
        (now W < wake \<longrightarrow> step (TimerFired k) W = W) \<and>
        (wake \<le> now W \<longrightarrow>
           stage (retries (step (TimerFired k) W) ! k) = Returned \<and>
           (webSocket W \<noteq> None \<longrightarrow>
              length (sockets (step (TimerFired k) W)) = Suc (length (sockets W)) \<and>
              constructed_at (last (sockets (step (TimerFired k) W))) = now W \<and>
              constructed_by (last (sockets (step (TimerFired k) W))) = Some k))"
  proof (intro allI impI conjI)
    fix k wake
    assume a: "k < length (retries W) \<and> stage (retries W ! k) = Sleeping wake"
    {
      assume "now W < wake"
      with a show "step (TimerFired k) W = W"
        by (simp add: timer_fired_def)
    }
    {
      assume "wake \<le> now W"
      with a have eq: "step (TimerFired k) W = retry_connect k W"
        by (simp add: timer_fired_def)
      from a retry_connect_at_once [of k W]
      show "stage (retries (step (TimerFired k) W) ! k) = Returned"
        unfolding eq by blast
      assume "webSocket W \<noteq> None"
      with a retry_connect_at_once [of k W]
      show "length (sockets (step (TimerFired k) W)) = Suc (length (sockets W))"
        and "constructed_at (last (sockets (step (TimerFired k) W))) = now W"
        and "constructed_by (last (sockets (step (TimerFired k) W))) = Some k"
        unfolding eq by blast+
    }
  qed
  from spacing exact settle timer show ?thesis by blast
qed

theorem reconnect_attempts_spaced_witness:
  "constructed_at
     (sockets (run [Call_openWebSocket None, Opened 0, Failed 0 None, Tick 1000, TimerFired 0,
                    Tick 3, Failed 1 None, Tick 1200, TimerFired 1] (start default_service)) ! 1)
     + nat RETRY_INTERVAL
   \<le> constructed_at
     (sockets (run [Call_openWebSocket None, Opened 0, Failed 0 None, Tick 1000, TimerFired 0,
                    Tick 3, Failed 1 None, Tick 1200, TimerFired 1] (start default_service)) ! 2) \<and>
   stage (retries (step (PolicySettled 0)
     (run [Set_onWebSocketRetry (Some (Returns JSUndefined)), Call_openWebSocket None, Opened 0,
           Tick 50, Failed 0 None, Tick 300] (start default_service))) ! 0) = Sleeping 1050 \<and>
   constructed_at (last (sockets (step (PolicySettled 0)
     (run [Set_onWebSocketRetry (Some (Returns JSUndefined)), Call_openWebSocket None, Opened 0,
           Failed 0 None, Tick 1500] (start default_service))))) = 1500"
proof -
  \<comment> \<open>two attempts of one sequence\<close>
  have j: "2 < length
     (sockets (run [Call_openWebSocket None, Opened 0, Failed 0 None, Tick 1000, TimerFired 0,
                    Tick 3, Failed 1 None, Tick 1200, TimerFired 1] (start default_service)))"
    and k: "constructed_by
     (sockets (run [Call_openWebSocket None, Opened 0, Failed 0 None, Tick 1000, TimerFired 0,
                    Tick 3, Failed 1 None, Tick 1200, TimerFired 1] (start default_service)) ! 2)
     = Some 1"
    and c: "caused_by
     (retries (run [Call_openWebSocket None, Opened 0, Failed 0 None, Tick 1000, TimerFired 0,
                    Tick 3, Failed 1 None, Tick 1200, TimerFired 1] (start default_service)) ! 1)
     = 1"
    by code_simp+
  from reconnect_attempts_spaced
    [OF refl, of "[Call_openWebSocket None, Opened 0, Failed 0 None, Tick 1000, TimerFired 0,
                    Tick 3, Failed 1 None, Tick 1200, TimerFired 1]" default_service] j k
  have "constructed_at
     (sockets (run [Call_openWebSocket None, Opened 0, Failed 0 None, Tick 1000, TimerFired 0,
                    Tick 3, Failed 1 None, Tick 1200, TimerFired 1] (start default_service))
      ! caused_by
     (retries (run [Call_openWebSocket None, Opened 0, Failed 0 None, Tick 1000, TimerFired 0,
                    Tick 3, Failed 1 None, Tick 1200, TimerFired 1] (start default_service)) ! 1))
     + nat RETRY_INTERVAL
   \<le> constructed_at
     (sockets (run [Call_openWebSocket None, Opened 0, Failed 0 None, Tick 1000, TimerFired 0,
                    Tick 3, Failed 1 None, Tick 1200, TimerFired 1] (start default_service)) ! 2)"
    by blast
  then have A: "constructed_at
     (sockets (run [Call_openWebSocket None, Opened 0, Failed 0 None, Tick 1000, TimerFired 0,
                    Tick 3, Failed 1 None, Tick 1200, TimerFired 1] (start default_service)) ! 1)
     + nat RETRY_INTERVAL
   \<le> constructed_at
     (sockets (run [Call_openWebSocket None, Opened 0, Failed 0 None, Tick 1000, TimerFired 0,
                    Tick 3, Failed 1 None, Tick 1200, TimerFired 1] (start default_service)) ! 2)"
    unfolding c .
  \<comment> \<open>the hook took 300 ms: the delay is the remaining 700 ms\<close>
  have b1: "0 < length (retries
     (run [Set_onWebSocketRetry (Some (Returns JSUndefined)), Call_openWebSocket None, Opened 0,
           Tick 50, Failed 0 None, Tick 300] (start default_service)))"
    and b2: "stage (retries
     (run [Set_onWebSocketRetry (Some (Returns JSUndefined)), Call_openWebSocket None, Opened 0,
           Tick 50, Failed 0 None, Tick 300] (start default_service)) ! 0)
     = AwaitingPolicy (Returns JSUndefined)"
    and b3: "now
     (run [Set_onWebSocketRetry (Some (Returns JSUndefined)), Call_openWebSocket None, Opened 0,
           Tick 50, Failed 0 None, Tick 300] (start default_service))
     < t (retries
     (run [Set_onWebSocketRetry (Some (Returns JSUndefined)), Call_openWebSocket None, Opened 0,
           Tick 50, Failed 0 None, Tick 300] (start default_service)) ! 0) + nat RETRY_INTERVAL"
    and b4: "t (retries
     (run [Set_onWebSocketRetry (Some (Returns JSUndefined)), Call_openWebSocket None, Opened 0,
           Tick 50, Failed 0 None, Tick 300] (start default_service)) ! 0) + nat RETRY_INTERVAL
     = 1050"
    by code_simp+
  have go: "await (Returns JSUndefined) \<noteq> Inr (JSBool False)"
    by simp
  from reconnect_attempts_spaced
    [OF refl, of "[Set_onWebSocketRetry (Some (Returns JSUndefined)), Call_openWebSocket None,
           Opened 0, Tick 50, Failed 0 None, Tick 300]" default_service] b1 b2 b3 go
  have "stage (retries (step (PolicySettled 0)
     (run [Set_onWebSocketRetry (Some (Returns JSUndefined)), Call_openWebSocket None, Opened 0,
           Tick 50, Failed 0 None, Tick 300] (start default_service))) ! 0)
     = Sleeping (t (retries
     (run [Set_onWebSocketRetry (Some (Returns JSUndefined)), Call_openWebSocket None, Opened 0,
           Tick 50, Failed 0 None, Tick 300] (start default_service)) ! 0) + nat RETRY_INTERVAL)"
    by blast
  then have B: "stage (retries (step (PolicySettled 0)
     (run [Set_onWebSocketRetry (Some (Returns JSUndefined)), Call_openWebSocket None, Opened 0,
           Tick 50, Failed 0 None, Tick 300] (start default_service))) ! 0) = Sleeping 1050"
    unfolding b4 .
  \<comment> \<open>the hook took 1500 ms: no delay\<close>
  have c1: "0 < length (retries
     (run [Set_onWebSocketRetry (Some (Returns JSUndefined)), Call_openWebSocket None, Opened 0,
           Failed 0 None, Tick 1500] (start default_service)))"
    and c2: "stage (retries
     (run [Set_onWebSocketRetry (Some (Returns JSUndefined)), Call_openWebSocket None, Opened 0,
           Failed 0 None, Tick 1500] (start default_service)) ! 0)
     = AwaitingPolicy (Returns JSUndefined)"
    and c3: "t (retries
     (run [Set_onWebSocketRetry (Some (Returns JSUndefined)), Call_openWebSocket None, Opened 0,
           Failed 0 None, Tick 1500] (start default_service)) ! 0) + nat RETRY_INTERVAL
     \<le> now
     (run [Set_onWebSocketRetry (Some (Returns JSUndefined)), Call_openWebSocket None, Opened 0,
           Failed 0 None, Tick 1500] (start default_service))"
    and c4: "webSocket
     (run [Set_onWebSocketRetry (Some (Returns JSUndefined)), Call_openWebSocket None, Opened 0,
           Failed 0 None, Tick 1500] (start default_service)) \<noteq> None"
    and c5: "now
     (run [Set_onWebSocketRetry (Some (Returns JSUndefined)), Call_openWebSocket None, Opened 0,
           Failed 0 None, Tick 1500] (start default_service)) = 1500"
    by code_simp+
  from reconnect_attempts_spaced
    [OF refl, of "[Set_onWebSocketRetry (Some (Returns JSUndefined)), Call_openWebSocket None,
           Opened 0, Failed 0 None, Tick 1500]" default_service] c1 c2 c3 c4 go
  have "constructed_at (last (sockets (step (PolicySettled 0)
     (run [Set_onWebSocketRetry (Some (Returns JSUndefined)), Call_openWebSocket None, Opened 0,
           Failed 0 None, Tick 1500] (start default_service)))))
     = now
     (run [Set_onWebSocketRetry (Some (Returns JSUndefined)), Call_openWebSocket None, Opened 0,
           Failed 0 None, Tick 1500] (start default_service))"
    by blast
  then have C: "constructed_at (last (sockets (step (PolicySettled 0)
     (run [Set_onWebSocketRetry (Some (Returns JSUndefined)), Call_openWebSocket None, Opened 0,
           Failed 0 None, Tick 1500] (start default_service))))) = 1500"
    unfolding c5 .
  from A B C show ?thesis by blast
qed

end
